theory Spec2Isabelle
  imports Complex_Main
begin

text \<open>
  A model of the client-side state layer of the dashboard: the HTTP client of
  \<^verbatim>\<open>services/api.js\<close> and the watchlist and portfolio providers of
  \<^verbatim>\<open>context/WatchlistContext.jsx\<close> and \<^verbatim>\<open>context/PortfolioContext.jsx\<close>. The network,
  the clock and \<^verbatim>\<open>localStorage\<close> are explicit: what the remote side answers is an
  argument of each operation, and storage is a value passed in and returned.
\<close>

section \<open>JavaScript values used by the HTTP client\<close>

text \<open>
  The client in \<^verbatim>\<open>services/api.js\<close> inspects parsed JSON bodies with property reads
  and the \<^verbatim>\<open>||\<close> operator. A parsed body is a JSON value, an object listing each of
  its keys once; \<^verbatim>\<open>undefined\<close> (a missing property) is \<open>None\<close> of an option.
\<close>

datatype jv =
    JNull
  | JBool bool
  | JNum real
  | JStr string
  | JArr "jv list"
  | JObj "(string \<times> jv) list"

definition truthy :: "jv \<Rightarrow> bool" where
  "truthy v = (case v of
       JNull \<Rightarrow> False
     | JBool b \<Rightarrow> b
     | JNum r \<Rightarrow> r \<noteq> 0
     | JStr s \<Rightarrow> s \<noteq> []
     | JArr _ \<Rightarrow> True
     | JObj _ \<Rightarrow> True)"

text \<open>Property read \<^verbatim>\<open>v.k\<close> on a value that is not \<^verbatim>\<open>null\<close>: only objects carry the
  properties read by the client; the read on \<^verbatim>\<open>null\<close> is treated where it happens.\<close>

definition get_prop :: "jv \<Rightarrow> string \<Rightarrow> jv option" where
  "get_prop v k = (case v of JObj kvs \<Rightarrow> map_of kvs k | _ \<Rightarrow> None)"

text \<open>\<^verbatim>\<open>a || d\<close> where \<open>d\<close> is a defined value.\<close>

definition js_or :: "jv option \<Rightarrow> jv \<Rightarrow> jv" where
  "js_or a d = (case a of None \<Rightarrow> d | Some v \<Rightarrow> if truthy v then v else d)"

text \<open>\<^verbatim>\<open>s.includes(t)\<close> on strings.\<close>

fun str_includes :: "string \<Rightarrow> string \<Rightarrow> bool" where
  "str_includes [] t = (t = [])"
| "str_includes (c # cs) t = (take (length t) (c # cs) = t \<or> str_includes cs t)"

text \<open>Decimal rendering of a non-negative integer, as a template literal does.\<close>

definition digit :: "nat \<Rightarrow> char" where
  "digit d = ''0123456789'' ! d"

fun show_nat :: "nat \<Rightarrow> string" where
  "show_nat n = (if n < 10 then [digit n] else show_nat (n div 10) @ [digit (n mod 10)])"

declare show_nat.simps [simp del]

section \<open>The HTTP client (\<^verbatim>\<open>services/api.js\<close>)\<close>

text \<open>An exception object: the client reads \<^verbatim>\<open>name\<close> and \<^verbatim>\<open>message\<close>.\<close>

record js_error =
  err_name :: string
  err_message :: string

text \<open>A synchronous completion: a \<^verbatim>\<open>throw\<close> or a returned value. A promise is given by
  the value it settles to: \<open>Inl\<close> a rejection, \<open>Inr\<close> a fulfilment.\<close>

datatype 'a completion = Throws js_error | Returns 'a

text \<open>What \<^verbatim>\<open>fetch\<close> hands back: a status, the \<^verbatim>\<open>content-type\<close> header, and what
  \<^verbatim>\<open>response.json()\<close> and \<^verbatim>\<open>response.text()\<close> settle to.\<close>

record http_response =
  status :: nat
  content_type :: "string option"
  json_result :: "js_error + jv"
  text_result :: "js_error + string"

text \<open>\<^verbatim>\<open>response.ok\<close> of the Fetch standard: the status is in 200..299.\<close>

definition ok :: "http_response \<Rightarrow> bool" where
  "ok r = (200 \<le> status r \<and> status r \<le> 299)"

datatype fetch_outcome = FetchRejected js_error | FetchResolved http_response

record api_error =
  message :: jv
  code :: jv
  http_status :: "nat option"
  details :: "jv option"

datatype envelope =
    Succeeded jv nat
  | Failed api_error

type_synonym token_store = "string option"

text \<open>\<^verbatim>\<open>setAuthToken(token)\<close>: a truthy token is stored, anything else removes the key.\<close>

definition setAuthToken :: "string option \<Rightarrow> token_store \<Rightarrow> token_store" where
  "setAuthToken token store = (case token of
       Some t \<Rightarrow> if t \<noteq> [] then Some t else None
     | None \<Rightarrow> None)"

definition is_json :: "string option \<Rightarrow> bool" where
  "is_json ct = (case ct of None \<Rightarrow> False | Some s \<Rightarrow> s \<noteq> [] \<and> str_includes s ''application/json'')"

definition http_code :: "nat \<Rightarrow> jv" where
  "http_code st = JStr (''HTTP_'' @ show_nat st)"

text \<open>The \<^verbatim>\<open>.then\<close> callback of the JSON branch of \<^verbatim>\<open>handleError\<close>: reading
  \<^verbatim>\<open>data.message\<close> of \<^verbatim>\<open>null\<close> throws, which rejects the promise.\<close>

definition json_error_body :: "nat \<Rightarrow> jv \<Rightarrow> js_error + envelope" where
  "json_error_body st data = (case data of
       JNull \<Rightarrow> Inl \<lparr>err_name = ''TypeError'',
                     err_message = ''Cannot read properties of null''\<rparr>
     | _ \<Rightarrow> Inr (Failed \<lparr>
           message = js_or (get_prop data ''message'')
                       (js_or (get_prop data ''error'') (JStr ''An error occurred'')),
           code = js_or (get_prop data ''code'') (http_code st),
           http_status = Some st,
           details = Some (js_or (get_prop data ''details'') data)\<rparr>))"

definition status_message :: "nat \<Rightarrow> jv" where
  "status_message st =
     (if st = 401 then JStr ''Unauthorized. Please log in.''
      else if st = 403 then JStr ''Access forbidden.''
      else if st = 404 then JStr ''Resource not found.''
      else if st = 422 then JStr ''Validation error.''
      else if st = 500 then JStr ''Server error. Please try again later.''
      else if st = 503 then JStr ''Service unavailable. Please try again later.''
      else JStr ''An error occurred'')"

text \<open>\<^verbatim>\<open>handleError(error, response)\<close>. The result is a synchronous completion whose
  value is the settled state of the returned promise, paired with the token store.
  With a response whose content type is JSON the function returns
  \<^verbatim>\<open>response.json().then(...)\<close> from inside its \<^verbatim>\<open>try\<close>: nothing is awaited there, so a
  rejection of that promise is not caught, and the \<^verbatim>\<open>switch\<close> on the status below is
  not reached.\<close>

definition handleError ::
  "js_error option \<Rightarrow> http_response option \<Rightarrow> token_store
     \<Rightarrow> (js_error + envelope) completion \<times> token_store" where
  "handleError error response store = (case response of
       None \<Rightarrow> (case error of
           None \<Rightarrow> (Throws \<lparr>err_name = ''TypeError'',
                            err_message = ''Cannot read properties of null''\<rparr>, store)
         | Some e \<Rightarrow> (Returns (Inr (Failed \<lparr>
               message = JStr ''Network error. Please check your connection.'',
               code = JStr ''NETWORK_ERROR'',
               http_status = None,
               details = Some (JStr (err_message e))\<rparr>)), store))
     | Some r \<Rightarrow>
         if is_json (content_type r) then
           (Returns (case json_result r of
                Inl e \<Rightarrow> Inl e
              | Inr data \<Rightarrow> json_error_body (status r) data), store)
         else
           (Returns (Inr (Failed \<lparr>
               message = status_message (status r),
               code = http_code (status r),
               http_status = Some (status r),
               details = None\<rparr>)),
            if status r = 401 then setAuthToken None store else store))"

definition timeout_envelope :: envelope where
  "timeout_envelope = Failed \<lparr>
       message = JStr ''Request timeout. Please try again.'',
       code = JStr ''TIMEOUT_ERROR'',
       http_status = None,
       details = None\<rparr>"

text \<open>The \<^verbatim>\<open>try\<close> block of \<^verbatim>\<open>request\<close>: \<^verbatim>\<open>await fetch\<close>, then either
  \<^verbatim>\<open>return this.handleError(null, response)\<close> (the returned promise is not awaited
  inside the block) or the awaited body read and the success envelope.\<close>

definition request_try ::
  "fetch_outcome \<Rightarrow> token_store \<Rightarrow> (js_error + envelope) completion \<times> token_store" where
  "request_try fo store = (case fo of
       FetchRejected e \<Rightarrow> (Throws e, store)
     | FetchResolved r \<Rightarrow>
         if \<not> ok r then handleError None (Some r) store
         else if is_json (content_type r) then
           (case json_result r of
              Inl e \<Rightarrow> (Throws e, store)
            | Inr v \<Rightarrow> (Returns (Inr (Succeeded v (status r))), store))
         else
           (case text_result r of
              Inl e \<Rightarrow> (Throws e, store)
            | Inr s \<Rightarrow> (Returns (Inr (Succeeded (JStr s) (status r))), store)))"

text \<open>The \<^verbatim>\<open>catch\<close> block of \<^verbatim>\<open>request\<close>.\<close>

definition request_catch ::
  "js_error \<Rightarrow> token_store \<Rightarrow> (js_error + envelope) \<times> token_store" where
  "request_catch e store =
     (if err_name e = ''AbortError'' then (Inr timeout_envelope, store)
      else (case handleError (Some e) None store of
              (Throws e', store') \<Rightarrow> (Inl e', store')
            | (Returns p, store') \<Rightarrow> (p, store')))"

text \<open>\<^verbatim>\<open>request(endpoint, options)\<close> as seen by its caller: what the returned promise
  settles to (\<open>Inl\<close>: it rejects, the caller's \<^verbatim>\<open>await\<close> throws), and the token store
  afterwards. The timer that aborts the fetch shows as a rejection of \<^verbatim>\<open>fetch\<close> named
  \<^verbatim>\<open>AbortError\<close>. The URL, the headers and the serialized body are built before the
  \<^verbatim>\<open>try\<close> block from the arguments alone and decide nothing below, so the model starts
  at the outcome of \<^verbatim>\<open>fetch\<close>.\<close>

definition request ::
  "fetch_outcome \<Rightarrow> token_store \<Rightarrow> (js_error + envelope) \<times> token_store" where
  "request fo store = (case request_try fo store of
       (Throws e, store') \<Rightarrow> request_catch e store'
     | (Returns p, store') \<Rightarrow> (p, store'))"

section \<open>Service responses as the providers see them\<close>

text \<open>
  Every service method returns the client's envelope
  \<^verbatim>\<open>{success, data?, error?}\<close>; the providers read \<^verbatim>\<open>success\<close>, \<^verbatim>\<open>data\<close>,
  \<^verbatim>\<open>error\<close> and \<^verbatim>\<open>error.message\<close>. An awaited service call either resolves to such
  an envelope or rejects with an exception. The answers of the remote side are
  arguments of the operations below.
\<close>

record svc_error =
  se_message :: string
  se_code :: "string option"

datatype 'a response = Success 'a | Failure "svc_error option"

datatype 'a outcome = Resolved "'a response" | Rejected js_error

text \<open>The body of a list call, read as \<^verbatim>\<open>data.<name> || data || []\<close>: an object that
  wraps the array, the array itself, a falsy primitive (an empty text body), or
  \<^verbatim>\<open>null\<close>, on which the property read throws.\<close>

datatype 'a list_data = Wrapped "'a list" | Bare "'a list" | Blank | Nullish

definition null_read :: js_error where
  "null_read = \<lparr>err_name = ''TypeError'', err_message = ''Cannot read properties of null''\<rparr>"

definition list_of_data :: "'a list_data \<Rightarrow> js_error + 'a list" where
  "list_of_data d = (case d of
       Wrapped xs \<Rightarrow> Inr xs
     | Bare xs \<Rightarrow> Inr xs
     | Blank \<Rightarrow> Inr []
     | Nullish \<Rightarrow> Inl null_read)"

text \<open>\<^verbatim>\<open>response.error?.message || d\<close>.\<close>

definition message_or :: "svc_error option \<Rightarrow> string \<Rightarrow> string" where
  "message_or e d = (case e of
       None \<Rightarrow> d
     | Some x \<Rightarrow> if se_message x \<noteq> [] then se_message x else d)"

text \<open>The \<^verbatim>\<open>error\<close> state holds \<^verbatim>\<open>null\<close>, a message string, or the error object
  of a response.\<close>

datatype errval = ErrText string | ErrObject svc_error

text \<open>The guard's reply \<^verbatim>\<open>{ success: false, error: { message } }\<close>.\<close>

definition not_selected :: "string \<Rightarrow> 'a response" where
  "not_selected m = Failure (Some \<lparr>se_message = m, se_code = None\<rparr>)"

text \<open>One \<^verbatim>\<open>localStorage\<close> key that holds a serialized snapshot: missing (or empty),
  present but not parseable, or present with a parsed value.\<close>

datatype 'a slot = Absent | Unparseable | Stored 'a

text \<open>\<^verbatim>\<open>safeParseMockData()\<close>: the parsed snapshot or \<^verbatim>\<open>null\<close>; a snapshot that does not
  parse is removed from storage.\<close>

definition safeParseMockData :: "'a slot \<Rightarrow> 'a option \<times> 'a slot" where
  "safeParseMockData slot = (case slot of
       Absent \<Rightarrow> (None, Absent)
     | Unparseable \<Rightarrow> (None, Absent)
     | Stored d \<Rightarrow> (Some d, Stored d))"

text \<open>\<^verbatim>\<open>String.prototype.toUpperCase\<close> on ASCII text.\<close>

definition upper_char :: "char \<Rightarrow> char" where
  "upper_char c =
     (case map_of (zip ''abcdefghijklmnopqrstuvwxyz'' ''ABCDEFGHIJKLMNOPQRSTUVWXYZ'') c of
        None \<Rightarrow> c
      | Some u \<Rightarrow> u)"

definition toUpperCase :: "string \<Rightarrow> string" where
  "toUpperCase s = map upper_char s"

section \<open>Watchlist provider (\<^verbatim>\<open>context/WatchlistContext.jsx\<close>)\<close>

record watchlist =
  wl_id :: string
  wl_name :: string
  wl_description :: string
  wl_createdAt :: string

record witem =
  it_id :: string
  it_watchlistId :: string
  it_symbol :: string
  it_name :: string
  it_price :: real
  it_change :: real
  it_changePercent :: real
  it_notes :: string
  it_addedAt :: string

record wl_new =
  new_name :: string
  new_description :: string

text \<open>The body of \<^verbatim>\<open>getWithItems\<close>, read as \<^verbatim>\<open>data.watchlist || data\<close> and
  \<^verbatim>\<open>data.items || []\<close>: an object with a \<^verbatim>\<open>watchlist\<close> property, the watchlist
  object itself, a falsy primitive (then the selection is set to a falsy value, here
  \<open>None\<close>), or \<^verbatim>\<open>null\<close>.\<close>

datatype wl_detail =
    Combined watchlist "witem list option"
  | BareWatchlist watchlist "witem list option"
  | BlankDetail
  | NullDetail

record wl_snapshot =
  snap_watchlists :: "watchlist list option"
  snap_items :: "witem list option"

definition mockWatchlists :: "watchlist list" where
  "mockWatchlists = [
     \<lparr>wl_id = ''watchlist-1'', wl_name = ''Tech Stocks'',
      wl_description = ''Technology sector watchlist'',
      wl_createdAt = ''2024-01-10T00:00:00.000Z''\<rparr>,
     \<lparr>wl_id = ''watchlist-2'', wl_name = ''High Dividend'',
      wl_description = ''Stocks with high dividend yields'',
      wl_createdAt = ''2024-02-15T00:00:00.000Z''\<rparr>]"

definition mockWatchlistItems :: "witem list" where
  "mockWatchlistItems = [
     \<lparr>it_id = ''watch-1'', it_watchlistId = ''watchlist-1'', it_symbol = ''META'',
      it_name = ''Meta Platforms Inc.'', it_price = 47523 / 100, it_change = 845 / 100,
      it_changePercent = 181 / 100, it_notes = ''Watching for entry point'',
      it_addedAt = ''2024-10-15T00:00:00.000Z''\<rparr>,
     \<lparr>it_id = ''watch-2'', it_watchlistId = ''watchlist-1'', it_symbol = ''NFLX'',
      it_name = ''Netflix Inc.'', it_price = 63218 / 100, it_change = - (532 / 100),
      it_changePercent = - (83 / 100), it_notes = ''Strong Q3 earnings'',
      it_addedAt = ''2024-10-20T00:00:00.000Z''\<rparr>,
     \<lparr>it_id = ''watch-3'', it_watchlistId = ''watchlist-1'', it_symbol = ''AMD'',
      it_name = ''Advanced Micro Devices'', it_price = 14267 / 100, it_change = 321 / 100,
      it_changePercent = 230 / 100, it_notes = ''AI chip competition'',
      it_addedAt = ''2024-10-25T00:00:00.000Z''\<rparr>]"

text \<open>\<^verbatim>\<open>loadMockData()\<close> of \<^verbatim>\<open>utils/mockData.js\<close>, the only writer of the snapshot key.\<close>

definition loadMockData_watchlists :: "wl_snapshot slot \<Rightarrow> wl_snapshot slot" where
  "loadMockData_watchlists slot =
     Stored \<lparr>snap_watchlists = Some mockWatchlists, snap_items = Some mockWatchlistItems\<rparr>"

record wstate =
  watchlists :: "watchlist list"
  currentWatchlist :: "watchlist option"
  items :: "witem list"
  loading :: bool
  error :: "errval option"

definition initial_wstate :: wstate where
  "initial_wstate = \<lparr>watchlists = [], currentWatchlist = None, items = [],
                      loading = False, error = None\<rparr>"

text \<open>An operation is the sequence of effects it performs, in order: calls of the state
  setters, calls of the remote service, and the removal of an unparseable snapshot.\<close>

datatype wl_call =
    GetAll
  | GetWithItems string
  | AddStock string string string
  | RemoveStock string string
  | Create wl_new
  | Update string wl_new
  | Delete string

datatype wl_event =
    SetWatchlists "watchlist list"
  | SetCurrentWatchlist "watchlist option"
  | SetItems "witem list"
  | FilterOutItem string
  | SetLoading bool
  | SetError "errval option"
  | Remote wl_call
  | RemoveSnapshot

text \<open>\<open>FilterOutItem i\<close> is the functional update
  \<^verbatim>\<open>setItems(prev => prev.filter(item => item.id !== i))\<close>.\<close>

fun apply_wl :: "wl_event \<Rightarrow> wstate \<times> wl_snapshot slot \<Rightarrow> wstate \<times> wl_snapshot slot" where
  "apply_wl (SetWatchlists ws) (s, slot) = (s\<lparr>watchlists := ws\<rparr>, slot)"
| "apply_wl (SetCurrentWatchlist c) (s, slot) = (s\<lparr>currentWatchlist := c\<rparr>, slot)"
| "apply_wl (SetItems xs) (s, slot) = (s\<lparr>items := xs\<rparr>, slot)"
| "apply_wl (FilterOutItem i) (s, slot) =
     (s\<lparr>items := filter (\<lambda>item. it_id item \<noteq> i) (items s)\<rparr>, slot)"
| "apply_wl (SetLoading b) (s, slot) = (s\<lparr>loading := b\<rparr>, slot)"
| "apply_wl (SetError e) (s, slot) = (s\<lparr>error := e\<rparr>, slot)"
| "apply_wl (Remote c) (s, slot) = (s, slot)"
| "apply_wl RemoveSnapshot (s, slot) = (s, Absent)"

definition run_wl :: "wl_event list \<Rightarrow> wstate \<times> wl_snapshot slot \<Rightarrow> wstate \<times> wl_snapshot slot" where
  "run_wl evs w = fold apply_wl evs w"

definition parse_events :: "'a slot \<Rightarrow> wl_event list" where
  "parse_events slot = (case slot of Unparseable \<Rightarrow> [RemoveSnapshot] | _ \<Rightarrow> [])"

subsection \<open>fetchWatchlists\<close>

definition fetchWatchlists_try :: "watchlist list_data outcome \<Rightarrow> js_error + wl_event list" where
  "fetchWatchlists_try out = (case out of
       Rejected e \<Rightarrow> Inl e
     | Resolved (Failure e) \<Rightarrow>
         Inl \<lparr>err_name = ''Error'', err_message = message_or e ''Failed to fetch watchlists''\<rparr>
     | Resolved (Success d) \<Rightarrow>
         (case list_of_data d of Inl e \<Rightarrow> Inl e | Inr ws \<Rightarrow> Inr [SetWatchlists ws]))"

definition cached_watchlists :: "wl_snapshot slot \<Rightarrow> watchlist list" where
  "cached_watchlists slot = (case fst (safeParseMockData slot) of
       None \<Rightarrow> mockWatchlists
     | Some d \<Rightarrow> (case snap_watchlists d of None \<Rightarrow> mockWatchlists | Some ws \<Rightarrow> ws))"

definition fetchWatchlists_catch :: "wl_snapshot slot \<Rightarrow> js_error \<Rightarrow> wl_event list" where
  "fetchWatchlists_catch slot err =
     parse_events slot @
     [SetWatchlists (cached_watchlists slot), SetError (Some (ErrText (err_message err)))]"

definition fetchWatchlists :: "wl_snapshot slot \<Rightarrow> watchlist list_data outcome \<Rightarrow> wl_event list" where
  "fetchWatchlists slot out =
     [SetLoading True, SetError None, Remote GetAll] @
     (case fetchWatchlists_try out of
        Inr evs \<Rightarrow> evs
      | Inl err \<Rightarrow> fetchWatchlists_catch slot err) @
     [SetLoading False]"

subsection \<open>selectWatchlist\<close>

definition selectWatchlist_try :: "wl_detail outcome \<Rightarrow> js_error + wl_event list" where
  "selectWatchlist_try out = (case out of
       Rejected e \<Rightarrow> Inl e
     | Resolved (Failure e) \<Rightarrow>
         Inl \<lparr>err_name = ''Error'',
              err_message = message_or e ''Failed to fetch watchlist items''\<rparr>
     | Resolved (Success d) \<Rightarrow> (case d of
           NullDetail \<Rightarrow> Inl null_read
         | BlankDetail \<Rightarrow> Inr [SetCurrentWatchlist None, SetItems []]
         | Combined w its \<Rightarrow>
             Inr [SetCurrentWatchlist (Some w),
                  SetItems (case its of None \<Rightarrow> [] | Some xs \<Rightarrow> xs)]
         | BareWatchlist w its \<Rightarrow>
             Inr [SetCurrentWatchlist (Some w),
                  SetItems (case its of None \<Rightarrow> [] | Some xs \<Rightarrow> xs)]))"

definition cached_selection :: "wl_snapshot slot \<Rightarrow> string \<Rightarrow> watchlist option \<times> witem list" where
  "cached_selection slot watchlistId = (case fst (safeParseMockData slot) of
       None \<Rightarrow>
         (find (\<lambda>w. wl_id w = watchlistId) mockWatchlists,
          filter (\<lambda>item. it_watchlistId item = watchlistId) mockWatchlistItems)
     | Some d \<Rightarrow> (case (snap_watchlists d, snap_items d) of
           (Some ws, Some its) \<Rightarrow>
             (find (\<lambda>w. wl_id w = watchlistId) ws,
              filter (\<lambda>item. it_watchlistId item = watchlistId) its)
         | _ \<Rightarrow>
             (find (\<lambda>w. wl_id w = watchlistId) mockWatchlists,
              filter (\<lambda>item. it_watchlistId item = watchlistId) mockWatchlistItems)))"

definition selectWatchlist_catch :: "wl_snapshot slot \<Rightarrow> string \<Rightarrow> js_error \<Rightarrow> wl_event list" where
  "selectWatchlist_catch slot watchlistId err =
     parse_events slot @
     [SetCurrentWatchlist (fst (cached_selection slot watchlistId)),
      SetItems (snd (cached_selection slot watchlistId)),
      SetError (Some (ErrText (err_message err)))]"

definition selectWatchlist ::
  "wl_snapshot slot \<Rightarrow> string \<Rightarrow> wl_detail outcome \<Rightarrow> wl_event list" where
  "selectWatchlist slot watchlistId out =
     [SetLoading True, SetError None, Remote (GetWithItems watchlistId)] @
     (case selectWatchlist_try out of
        Inr evs \<Rightarrow> evs
      | Inl err \<Rightarrow> selectWatchlist_catch slot watchlistId err) @
     [SetLoading False]"

subsection \<open>addStock and removeStock\<close>

text \<open>The record fabricated by the \<^verbatim>\<open>catch\<close> block of \<^verbatim>\<open>addStock\<close>; \<open>now\<close> is the
  reading of \<^verbatim>\<open>Date.now()\<close> and \<open>stamp\<close> that of \<^verbatim>\<open>new Date().toISOString()\<close>.\<close>

definition local_item :: "watchlist \<Rightarrow> string \<Rightarrow> string \<Rightarrow> nat \<Rightarrow> string \<Rightarrow> witem" where
  "local_item cw symbol notes now stamp =
     \<lparr>it_id = ''item_'' @ show_nat now,
      it_watchlistId = wl_id cw,
      it_symbol = toUpperCase symbol,
      it_name = toUpperCase symbol @ '' Inc.'',
      it_price = 100,
      it_change = 0,
      it_changePercent = 0,
      it_notes = notes,
      it_addedAt = stamp\<rparr>"

text \<open>\<^verbatim>\<open>addStock(symbol, notes)\<close>. The closure reads \<^verbatim>\<open>currentWatchlist\<close> and
  \<^verbatim>\<open>items\<close> of the state \<open>s\<close> it was created in. A failed response is thrown and lands
  in the same \<^verbatim>\<open>catch\<close> as a rejected call.\<close>

definition addStock ::
  "wstate \<Rightarrow> wl_snapshot slot \<Rightarrow> string \<Rightarrow> string \<Rightarrow> nat \<Rightarrow> string
     \<Rightarrow> witem outcome \<Rightarrow> wl_detail outcome \<Rightarrow> wl_event list \<times> witem response" where
  "addStock s slot symbol notes now stamp add_out sel_out = (case currentWatchlist s of
       None \<Rightarrow> ([], not_selected ''No watchlist selected'')
     | Some cw \<Rightarrow> (case add_out of
           Resolved (Success d) \<Rightarrow>
             ([SetLoading True, Remote (AddStock (wl_id cw) symbol notes)] @
              selectWatchlist slot (wl_id cw) sel_out @
              [SetLoading False],
              Success d)
         | _ \<Rightarrow>
             ([SetLoading True, Remote (AddStock (wl_id cw) symbol notes),
               SetItems (items s @ [local_item cw symbol notes now stamp]),
               SetLoading False],
              Success (local_item cw symbol notes now stamp))))"

text \<open>\<^verbatim>\<open>removeStock(itemId)\<close> has no \<^verbatim>\<open>try\<close>: a rejected service call leaves the
  operation at the \<^verbatim>\<open>await\<close>.\<close>

definition removeStock ::
  "wstate \<Rightarrow> string \<Rightarrow> 'a outcome \<Rightarrow> wl_event list \<times> 'a response completion" where
  "removeStock s itemId out = (case currentWatchlist s of
       None \<Rightarrow> ([], Returns (not_selected ''No watchlist selected''))
     | Some cw \<Rightarrow> (case out of
           Rejected e \<Rightarrow>
             ([SetLoading True, Remote (RemoveStock (wl_id cw) itemId)], Throws e)
         | Resolved r \<Rightarrow>
             ([SetLoading True, Remote (RemoveStock (wl_id cw) itemId),
               (case r of
                  Success _ \<Rightarrow> FilterOutItem itemId
                | Failure e \<Rightarrow> SetError (map_option ErrObject e)),
               SetLoading False],
              Returns r)))"

subsection \<open>createWatchlist, updateWatchlist, deleteWatchlist\<close>

text \<open>The reply built in the outer \<^verbatim>\<open>catch\<close> of the three operations.\<close>

definition caught :: "js_error \<Rightarrow> 'a response" where
  "caught e = Failure (Some \<lparr>se_message = err_message e, se_code = None\<rparr>)"

text \<open>\<^verbatim>\<open>createWatchlist(watchlistData)\<close>. After the awaited re-fetch, the updater passed
  to \<^verbatim>\<open>setWatchlists\<close> sees the list as the re-fetch left it, starts
  \<^verbatim>\<open>selectWatchlist\<close> without awaiting it when the new id is in that list, and returns
  the list unchanged. The updater runs when the queued update is processed, so the
  effects of the selection it starts are placed after those of \<^verbatim>\<open>createWatchlist\<close>
  itself.\<close>

definition createWatchlist ::
  "wstate \<Rightarrow> wl_snapshot slot \<Rightarrow> wl_new \<Rightarrow> watchlist outcome
     \<Rightarrow> watchlist list_data outcome \<Rightarrow> wl_detail outcome
     \<Rightarrow> wl_event list \<times> watchlist response" where
  "createWatchlist s slot watchlistData create_out fetch_out sel_out = (case create_out of
       Rejected e \<Rightarrow>
         ([SetLoading True, Remote (Create watchlistData),
           SetError (Some (ErrText (err_message e))), SetLoading False],
          caught e)
     | Resolved (Failure e) \<Rightarrow>
         ([SetLoading True, Remote (Create watchlistData),
           SetError (map_option ErrObject e), SetLoading False],
          Failure e)
     | Resolved (Success w) \<Rightarrow>
         (let own = [SetLoading True, Remote (Create watchlistData)] @
                    fetchWatchlists slot fetch_out;
              after = run_wl own (s, slot);
              started =
                (if list_ex (\<lambda>w'. wl_id w' = wl_id w) (watchlists (fst after))
                 then selectWatchlist (snd after) (wl_id w) sel_out
                 else [])
          in (own @ [SetLoading False] @ started, Success w)))"

definition current_is :: "wstate \<Rightarrow> string \<Rightarrow> bool" where
  "current_is s watchlistId = (case currentWatchlist s of
       None \<Rightarrow> False
     | Some cw \<Rightarrow> wl_id cw = watchlistId)"

definition updateWatchlist ::
  "wstate \<Rightarrow> wl_snapshot slot \<Rightarrow> string \<Rightarrow> wl_new \<Rightarrow> watchlist outcome
     \<Rightarrow> watchlist list_data outcome \<Rightarrow> wl_event list \<times> watchlist response" where
  "updateWatchlist s slot watchlistId data upd_out fetch_out = (case upd_out of
       Rejected e \<Rightarrow>
         ([SetLoading True, Remote (Update watchlistId data),
           SetError (Some (ErrText (err_message e))), SetLoading False],
          caught e)
     | Resolved (Failure e) \<Rightarrow>
         ([SetLoading True, Remote (Update watchlistId data),
           SetError (map_option ErrObject e), SetLoading False],
          Failure e)
     | Resolved (Success w) \<Rightarrow>
         ([SetLoading True, Remote (Update watchlistId data)] @
          fetchWatchlists slot fetch_out @
          (if current_is s watchlistId then [SetCurrentWatchlist (Some w)] else []) @
          [SetLoading False],
          Success w))"

definition deleteWatchlist ::
  "wstate \<Rightarrow> wl_snapshot slot \<Rightarrow> string \<Rightarrow> 'a outcome
     \<Rightarrow> watchlist list_data outcome \<Rightarrow> wl_event list \<times> 'a response" where
  "deleteWatchlist s slot watchlistId del_out fetch_out = (case del_out of
       Rejected e \<Rightarrow>
         ([SetLoading True, Remote (Delete watchlistId),
           SetError (Some (ErrText (err_message e))), SetLoading False],
          caught e)
     | Resolved (Failure e) \<Rightarrow>
         ([SetLoading True, Remote (Delete watchlistId),
           SetError (map_option ErrObject e), SetLoading False],
          Failure e)
     | Resolved (Success d) \<Rightarrow>
         ([SetLoading True, Remote (Delete watchlistId)] @
          fetchWatchlists slot fetch_out @
          (if current_is s watchlistId then [SetCurrentWatchlist None, SetItems []] else []) @
          [SetLoading False],
          Success d))"

subsection \<open>The auto-select effect\<close>

text \<open>\<^verbatim>\<open>if (!currentWatchlist && watchlists.length > 0) selectWatchlist(watchlists[0].id)\<close>,
  run after a render in which \<^verbatim>\<open>watchlists\<close> or \<^verbatim>\<open>currentWatchlist\<close> changed.\<close>

definition autoSelectWatchlist ::
  "wstate \<Rightarrow> wl_snapshot slot \<Rightarrow> wl_detail outcome \<Rightarrow> wl_event list" where
  "autoSelectWatchlist s slot sel_out = (case currentWatchlist s of
       Some _ \<Rightarrow> []
     | None \<Rightarrow> (case watchlists s of
           [] \<Rightarrow> []
         | w # _ \<Rightarrow> selectWatchlist slot (wl_id w) sel_out))"

section \<open>Portfolio provider (\<^verbatim>\<open>context/PortfolioContext.jsx\<close>)\<close>

record portfolio =
  pf_id :: string
  pf_name :: string
  pf_description :: string

record holding =
  hl_id :: string
  hl_portfolioId :: string
  hl_symbol :: string
  hl_shares :: real

record transaction =
  tx_id :: string
  tx_portfolioId :: string
  tx_symbol :: string
  tx_type :: string
  tx_shares :: real
  tx_price :: real

record tx_new =
  ntx_symbol :: string
  ntx_type :: string
  ntx_shares :: real
  ntx_price :: real

record pf_new =
  npf_name :: string
  npf_description :: string

record pf_snapshot =
  snap_portfolios :: "portfolio list option"
  snap_holdings :: "holding list option"
  snap_transactions :: "transaction list option"

record pstate =
  portfolios :: "portfolio list"
  currentPortfolio :: "portfolio option"
  holdings :: "holding list"
  transactions :: "transaction list"
  pf_loading :: bool
  pf_error :: "errval option"

definition initial_pstate :: pstate where
  "initial_pstate = \<lparr>portfolios = [], currentPortfolio = None, holdings = [],
                      transactions = [], pf_loading = False, pf_error = None\<rparr>"

datatype pf_call =
    PGetAll
  | PGetById string
  | PGetHoldings string
  | PGetTransactions string
  | PAddTransaction string tx_new
  | PCreate pf_new

datatype pf_event =
    SetPortfolios "portfolio list"
  | SetCurrentPortfolio "portfolio option"
  | SetHoldings "holding list"
  | SetTransactions "transaction list"
  | PSetLoading bool
  | PSetError "errval option"
  | PRemote pf_call
  | PRemoveSnapshot

fun apply_pf :: "pf_event \<Rightarrow> pstate \<times> pf_snapshot slot \<Rightarrow> pstate \<times> pf_snapshot slot" where
  "apply_pf (SetPortfolios ps) (s, slot) = (s\<lparr>portfolios := ps\<rparr>, slot)"
| "apply_pf (SetCurrentPortfolio c) (s, slot) = (s\<lparr>currentPortfolio := c\<rparr>, slot)"
| "apply_pf (SetHoldings hs) (s, slot) = (s\<lparr>holdings := hs\<rparr>, slot)"
| "apply_pf (SetTransactions ts) (s, slot) = (s\<lparr>transactions := ts\<rparr>, slot)"
| "apply_pf (PSetLoading b) (s, slot) = (s\<lparr>pf_loading := b\<rparr>, slot)"
| "apply_pf (PSetError e) (s, slot) = (s\<lparr>pf_error := e\<rparr>, slot)"
| "apply_pf (PRemote c) (s, slot) = (s, slot)"
| "apply_pf PRemoveSnapshot (s, slot) = (s, Absent)"

definition run_pf :: "pf_event list \<Rightarrow> pstate \<times> pf_snapshot slot \<Rightarrow> pstate \<times> pf_snapshot slot" where
  "run_pf evs w = fold apply_pf evs w"

definition pf_parse_events :: "'a slot \<Rightarrow> pf_event list" where
  "pf_parse_events slot = (case slot of Unparseable \<Rightarrow> [PRemoveSnapshot] | _ \<Rightarrow> [])"

subsection \<open>fetchPortfolios\<close>

text \<open>\<^verbatim>\<open>mockData && mockData.portfolios\<close>.\<close>

definition cached_portfolios :: "pf_snapshot slot \<Rightarrow> portfolio list option" where
  "cached_portfolios slot = (case fst (safeParseMockData slot) of
       None \<Rightarrow> None
     | Some d \<Rightarrow> snap_portfolios d)"

definition fetchPortfolios_catch :: "pf_snapshot slot \<Rightarrow> js_error \<Rightarrow> pf_event list" where
  "fetchPortfolios_catch slot err =
     pf_parse_events slot @
     (case cached_portfolios slot of
        Some ps \<Rightarrow> [SetPortfolios ps]
      | None \<Rightarrow>
          [PSetError (Some (ErrText
             (if err_message err \<noteq> [] then err_message err
              else ''Failed to fetch portfolios'')))])"

definition fetchPortfolios ::
  "pf_snapshot slot \<Rightarrow> portfolio list_data outcome \<Rightarrow> pf_event list" where
  "fetchPortfolios slot out =
     [PSetLoading True, PSetError None, PRemote PGetAll] @
     (case out of
        Rejected e \<Rightarrow> fetchPortfolios_catch slot e
      | Resolved (Failure e) \<Rightarrow>
          pf_parse_events slot @
          (case cached_portfolios slot of
             Some ps \<Rightarrow> [SetPortfolios ps]
           | None \<Rightarrow> [PSetError (map_option ErrObject e)])
      | Resolved (Success d) \<Rightarrow>
          (case list_of_data d of
             Inl e \<Rightarrow> fetchPortfolios_catch slot e
           | Inr ps \<Rightarrow> [SetPortfolios ps])) @
     [PSetLoading False]"

subsection \<open>selectPortfolio\<close>

text \<open>\<^verbatim>\<open>mockData && mockData.portfolios && mockData.holdings && mockData.transactions\<close>:
  the three lists of a complete snapshot.\<close>

definition complete_snapshot ::
  "pf_snapshot slot \<Rightarrow> (portfolio list \<times> holding list \<times> transaction list) option" where
  "complete_snapshot slot = (case fst (safeParseMockData slot) of
       None \<Rightarrow> None
     | Some d \<Rightarrow> (case (snap_portfolios d, snap_holdings d, snap_transactions d) of
           (Some ps, Some hs, Some ts) \<Rightarrow> Some (ps, hs, ts)
         | _ \<Rightarrow> None))"

definition select_cached :: "portfolio \<Rightarrow> holding list \<Rightarrow> transaction list \<Rightarrow> pf_event list" where
  "select_cached p hs ts =
     [SetCurrentPortfolio (Some p),
      SetHoldings (filter (\<lambda>h. hl_portfolioId h = pf_id p) hs),
      SetTransactions (filter (\<lambda>t. tx_portfolioId t = pf_id p) ts)]"

text \<open>The branch taken when \<^verbatim>\<open>getById\<close> answers \<^verbatim>\<open>success: false\<close>.\<close>

definition selectPortfolio_failed ::
  "pf_snapshot slot \<Rightarrow> string \<Rightarrow> svc_error option \<Rightarrow> pf_event list" where
  "selectPortfolio_failed slot portfolioId e =
     pf_parse_events slot @
     (case complete_snapshot slot of
        None \<Rightarrow> [PSetError (map_option ErrObject e)]
      | Some (ps, hs, ts) \<Rightarrow> (case find (\<lambda>p. pf_id p = portfolioId) ps of
            None \<Rightarrow> [PSetError (map_option ErrObject e)]
          | Some p \<Rightarrow> select_cached p hs ts))"

definition selectPortfolio_catch ::
  "pf_snapshot slot \<Rightarrow> string \<Rightarrow> js_error \<Rightarrow> pf_event list" where
  "selectPortfolio_catch slot portfolioId err =
     pf_parse_events slot @
     (case complete_snapshot slot of
        None \<Rightarrow>
          [PSetError (Some (ErrText
             (if err_message err \<noteq> [] then err_message err
              else ''Failed to load portfolio'')))]
      | Some (ps, hs, ts) \<Rightarrow> (case find (\<lambda>p. pf_id p = portfolioId) ps of
            None \<Rightarrow> [PSetError (Some (ErrText ''Portfolio not found''))]
          | Some p \<Rightarrow> select_cached p hs ts))"

text \<open>\<^verbatim>\<open>selectPortfolio(portfolioId)\<close> in two parts: what runs up to the first
  \<^verbatim>\<open>await\<close>, and the rest. A \<^verbatim>\<open>null\<close> body of \<^verbatim>\<open>getById\<close> is stored as it is.\<close>

definition selectPortfolio_start :: "string \<Rightarrow> pf_event list" where
  "selectPortfolio_start portfolioId =
     [PSetLoading True, PSetError None, PRemote (PGetById portfolioId)]"

definition selectPortfolio_rest ::
  "pf_snapshot slot \<Rightarrow> string \<Rightarrow> portfolio option outcome \<Rightarrow> holding list_data outcome
     \<Rightarrow> pf_event list" where
  "selectPortfolio_rest slot portfolioId det_out hold_out = (case det_out of
       Rejected e \<Rightarrow> selectPortfolio_catch slot portfolioId e @ [PSetLoading False]
     | Resolved (Failure e) \<Rightarrow> selectPortfolio_failed slot portfolioId e @ [PSetLoading False]
     | Resolved (Success p) \<Rightarrow>
         [SetCurrentPortfolio p, PRemote (PGetHoldings portfolioId)] @
         (case hold_out of
            Rejected e \<Rightarrow> selectPortfolio_catch slot portfolioId e
          | Resolved (Failure e) \<Rightarrow> [PSetError (map_option ErrObject e)]
          | Resolved (Success d) \<Rightarrow> (case list_of_data d of
                Inl e \<Rightarrow> selectPortfolio_catch slot portfolioId e
              | Inr hs \<Rightarrow> [SetHoldings hs])) @
         [PSetLoading False])"

definition selectPortfolio ::
  "pf_snapshot slot \<Rightarrow> string \<Rightarrow> portfolio option outcome \<Rightarrow> holding list_data outcome
     \<Rightarrow> pf_event list" where
  "selectPortfolio slot portfolioId det_out hold_out =
     selectPortfolio_start portfolioId @
     selectPortfolio_rest slot portfolioId det_out hold_out"

subsection \<open>fetchTransactions, addTransaction, createPortfolio\<close>

text \<open>None of the three has a \<^verbatim>\<open>try\<close>: a rejected call, or a property read on a
  \<^verbatim>\<open>null\<close> body, leaves the operation where it happens.\<close>

definition fetchTransactions ::
  "pstate \<Rightarrow> transaction list_data outcome \<Rightarrow> pf_event list \<times> unit completion" where
  "fetchTransactions s out = (case currentPortfolio s of
       None \<Rightarrow> ([], Returns ())
     | Some cp \<Rightarrow> (case out of
           Rejected e \<Rightarrow>
             ([PSetLoading True, PRemote (PGetTransactions (pf_id cp))], Throws e)
         | Resolved (Failure e) \<Rightarrow>
             ([PSetLoading True, PRemote (PGetTransactions (pf_id cp)),
               PSetError (map_option ErrObject e), PSetLoading False], Returns ())
         | Resolved (Success d) \<Rightarrow> (case list_of_data d of
               Inl e \<Rightarrow>
                 ([PSetLoading True, PRemote (PGetTransactions (pf_id cp))], Throws e)
             | Inr ts \<Rightarrow>
                 ([PSetLoading True, PRemote (PGetTransactions (pf_id cp)),
                   SetTransactions ts, PSetLoading False], Returns ()))))"

definition addTransaction ::
  "pstate \<Rightarrow> pf_snapshot slot \<Rightarrow> tx_new \<Rightarrow> transaction outcome
     \<Rightarrow> portfolio option outcome \<Rightarrow> holding list_data outcome
     \<Rightarrow> transaction list_data outcome
     \<Rightarrow> pf_event list \<times> transaction response completion" where
  "addTransaction s slot transactionData add_out det_out hold_out tx_out =
     (case currentPortfolio s of
        None \<Rightarrow> ([], Returns (not_selected ''No portfolio selected''))
      | Some cp \<Rightarrow> (case add_out of
            Rejected e \<Rightarrow>
              ([PSetLoading True, PRemote (PAddTransaction (pf_id cp) transactionData)],
               Throws e)
          | Resolved (Failure e) \<Rightarrow>
              ([PSetLoading True, PRemote (PAddTransaction (pf_id cp) transactionData),
                PSetError (map_option ErrObject e), PSetLoading False],
               Returns (Failure e))
          | Resolved (Success d) \<Rightarrow>
              (let before =
                     [PSetLoading True, PRemote (PAddTransaction (pf_id cp) transactionData)] @
                     selectPortfolio slot (pf_id cp) det_out hold_out @
                     fst (fetchTransactions s tx_out)
               in (case snd (fetchTransactions s tx_out) of
                     Throws e \<Rightarrow> (before, Throws e)
                   | Returns _ \<Rightarrow> (before @ [PSetLoading False], Returns (Success d))))))"

text \<open>\<^verbatim>\<open>createPortfolio(portfolioData)\<close> calls \<^verbatim>\<open>selectPortfolio\<close> without awaiting it:
  the selection runs up to its first \<^verbatim>\<open>await\<close>, \<^verbatim>\<open>createPortfolio\<close> finishes, and the
  rest of the selection follows.\<close>

definition createPortfolio ::
  "pstate \<Rightarrow> pf_snapshot slot \<Rightarrow> pf_new \<Rightarrow> portfolio outcome
     \<Rightarrow> portfolio list_data outcome \<Rightarrow> portfolio option outcome \<Rightarrow> holding list_data outcome
     \<Rightarrow> pf_event list \<times> portfolio response completion" where
  "createPortfolio s slot portfolioData create_out fetch_out det_out hold_out =
     (case create_out of
        Rejected e \<Rightarrow> ([PSetLoading True, PRemote (PCreate portfolioData)], Throws e)
      | Resolved (Failure e) \<Rightarrow>
          ([PSetLoading True, PRemote (PCreate portfolioData),
            PSetError (map_option ErrObject e), PSetLoading False],
           Returns (Failure e))
      | Resolved (Success p) \<Rightarrow>
          (let own = [PSetLoading True, PRemote (PCreate portfolioData)] @
                     fetchPortfolios slot fetch_out;
               slot' = snd (run_pf own (s, slot))
           in (own @ selectPortfolio_start (pf_id p) @ [PSetLoading False] @
               selectPortfolio_rest slot' (pf_id p) det_out hold_out,
               Returns (Success p))))"

subsection \<open>The auto-select effect\<close>

definition autoSelectPortfolio ::
  "pstate \<Rightarrow> pf_snapshot slot \<Rightarrow> portfolio option outcome \<Rightarrow> holding list_data outcome
     \<Rightarrow> pf_event list" where
  "autoSelectPortfolio s slot det_out hold_out = (case currentPortfolio s of
       Some _ \<Rightarrow> []
     | None \<Rightarrow> (case portfolios s of
           [] \<Rightarrow> []
         | p # _ \<Rightarrow> selectPortfolio slot (pf_id p) det_out hold_out))"

section \<open>Notions used in the statements\<close>

text \<open>A remote request fails when the awaited call rejects or resolves to an envelope
  with \<^verbatim>\<open>success: false\<close>.\<close>

definition failed :: "'a outcome \<Rightarrow> bool" where
  "failed out = (case out of
       Rejected _ \<Rightarrow> True
     | Resolved (Failure _) \<Rightarrow> True
     | Resolved (Success _) \<Rightarrow> False)"

text \<open>The message of a failed request: that of the exception, or that of the error
  object with the caller's default \<open>d\<close>.\<close>

definition failure_text :: "'a outcome \<Rightarrow> string \<Rightarrow> string" where
  "failure_text out d = (case out of
       Rejected e \<Rightarrow> err_message e
     | Resolved (Failure fe) \<Rightarrow> message_or fe d
     | Resolved (Success _) \<Rightarrow> [])"

text \<open>An effect sequence brackets \<^verbatim>\<open>loading\<close>: its first effect is
  \<^verbatim>\<open>setLoading(true)\<close> and its last is \<^verbatim>\<open>setLoading(false)\<close>.\<close>

definition sets_loading :: "bool \<Rightarrow> wl_event \<Rightarrow> bool" where
  "sets_loading b ev = (case ev of SetLoading b' \<Rightarrow> b' = b | _ \<Rightarrow> False)"

definition wl_bracketed :: "wl_event list \<Rightarrow> bool" where
  "wl_bracketed evs = (case evs of
       [] \<Rightarrow> False
     | ev # _ \<Rightarrow> sets_loading True ev \<and> sets_loading False (last evs))"

definition pf_sets_loading :: "bool \<Rightarrow> pf_event \<Rightarrow> bool" where
  "pf_sets_loading b ev = (case ev of PSetLoading b' \<Rightarrow> b' = b | _ \<Rightarrow> False)"

definition pf_bracketed :: "pf_event list \<Rightarrow> bool" where
  "pf_bracketed evs = (case evs of
       [] \<Rightarrow> False
     | ev # _ \<Rightarrow> pf_sets_loading True ev \<and> pf_sets_loading False (last evs))"

definition is_remote :: "wl_event \<Rightarrow> bool" where
  "is_remote ev = (case ev of Remote _ \<Rightarrow> True | _ \<Rightarrow> False)"

definition pf_is_remote :: "pf_event \<Rightarrow> bool" where
  "pf_is_remote ev = (case ev of PRemote _ \<Rightarrow> True | _ \<Rightarrow> False)"

text \<open>What \<^verbatim>\<open>fetchPortfolios\<close> stores in \<^verbatim>\<open>error\<close> when the request failed and the
  snapshot has no portfolios.\<close>

definition pf_failure :: "'a outcome \<Rightarrow> errval option" where
  "pf_failure out = (case out of
       Rejected e \<Rightarrow>
         Some (ErrText (if err_message e \<noteq> [] then err_message e
                        else ''Failed to fetch portfolios''))
     | Resolved (Failure fe) \<Rightarrow> map_option ErrObject fe
     | Resolved (Success _) \<Rightarrow> None)"

text \<open>The state after a sequence of effects.\<close>

definition wl_after :: "wl_event list \<Rightarrow> wstate \<Rightarrow> wl_snapshot slot \<Rightarrow> wstate" where
  "wl_after evs s slot = fst (run_wl evs (s, slot))"

definition pf_after :: "pf_event list \<Rightarrow> pstate \<Rightarrow> pf_snapshot slot \<Rightarrow> pstate" where
  "pf_after evs s slot = fst (run_pf evs (s, slot))"

text \<open>Two collection fetches in a row, the second one on the state and the storage the
  first one left.\<close>

definition fetchWatchlists_twice ::
  "wstate \<Rightarrow> wl_snapshot slot \<Rightarrow> watchlist list_data outcome \<Rightarrow> watchlist list_data outcome
     \<Rightarrow> wstate \<times> wl_snapshot slot" where
  "fetchWatchlists_twice s slot out1 out2 =
     (let w1 = run_wl (fetchWatchlists slot out1) (s, slot)
      in run_wl (fetchWatchlists (snd w1) out2) w1)"

definition fetchPortfolios_twice ::
  "pstate \<Rightarrow> pf_snapshot slot \<Rightarrow> portfolio list_data outcome \<Rightarrow> portfolio list_data outcome
     \<Rightarrow> pstate \<times> pf_snapshot slot" where
  "fetchPortfolios_twice s slot out1 out2 =
     (let w1 = run_pf (fetchPortfolios slot out1) (s, slot)
      in run_pf (fetchPortfolios (snd w1) out2) w1)"

text \<open>\<^verbatim>\<open>removeStock(itemId)\<close> called twice in a row; the second call is made by the
  closure of the state the first one left.\<close>

definition removeStock_twice ::
  "wstate \<Rightarrow> wl_snapshot slot \<Rightarrow> string \<Rightarrow> 'a outcome \<Rightarrow> 'a outcome \<Rightarrow> wstate \<times> wstate" where
  "removeStock_twice s slot itemId out1 out2 =
     (let s1 = wl_after (fst (removeStock s itemId out1)) s slot;
          s2 = wl_after (fst (removeStock s1 itemId out2)) s1 slot
      in (s1, s2))"

subsection \<open>Example values\<close>

definition net_down :: js_error where
  "net_down = \<lparr>err_name = ''TypeError'', err_message = ''Failed to fetch''\<rparr>"

definition server_error :: svc_error where
  "server_error = \<lparr>se_message = ''Server error. Please try again later.'',
                    se_code = Some ''HTTP_500''\<rparr>"

definition not_found :: svc_error where
  "not_found = \<lparr>se_message = ''Resource not found.'', se_code = Some ''HTTP_404''\<rparr>"

definition w9 :: watchlist where
  "w9 = \<lparr>wl_id = ''w9'', wl_name = ''Energy'', wl_description = [],
         wl_createdAt = ''2025-03-01T00:00:00.000Z''\<rparr>"

definition c1 :: witem where
  "c1 = \<lparr>it_id = ''c1'', it_watchlistId = ''w9'', it_symbol = ''MSFT'',
         it_name = ''Microsoft Corporation'', it_price = 400, it_change = 1,
         it_changePercent = 1 / 4, it_notes = [], it_addedAt = ''2025-03-02T00:00:00.000Z''\<rparr>"

definition p1 :: portfolio where
  "p1 = \<lparr>pf_id = ''p1'', pf_name = ''Growth'', pf_description = []\<rparr>"

definition t1 :: transaction where
  "t1 = \<lparr>tx_id = ''t1'', tx_portfolioId = ''p1'', tx_symbol = ''AAPL'', tx_type = ''buy'',
         tx_shares = 10, tx_price = 150\<rparr>"

definition buy_aapl :: tx_new where
  "buy_aapl = \<lparr>ntx_symbol = ''AAPL'', ntx_type = ''buy'', ntx_shares = 5, ntx_price = 180\<rparr>"

text \<open>Effects of the portfolio manager that replace the collection, and that clear the
  selection.\<close>

definition writes_portfolios :: "pf_event \<Rightarrow> bool" where
  "writes_portfolios ev = (case ev of SetPortfolios _ \<Rightarrow> True | _ \<Rightarrow> False)"

definition clears_portfolio :: "pf_event \<Rightarrow> bool" where
  "clears_portfolio ev = (case ev of SetCurrentPortfolio None \<Rightarrow> True | _ \<Rightarrow> False)"

text \<open>States used in examples: a collection loaded with nothing selected, and the same
  with its first item selected.\<close>

definition w_loaded :: wstate where
  "w_loaded = initial_wstate\<lparr>watchlists := [w9]\<rparr>"

definition w_selected :: wstate where
  "w_selected = initial_wstate\<lparr>watchlists := [w9], currentWatchlist := Some w9, items := [c1]\<rparr>"

definition p_loaded :: pstate where
  "p_loaded = initial_pstate\<lparr>portfolios := [p1]\<rparr>"

definition p_selected :: pstate where
  "p_selected = initial_pstate\<lparr>portfolios := [p1], currentPortfolio := Some p1,
                                transactions := [t1]\<rparr>"

text \<open>A snapshot that holds the example watchlist and its item.\<close>

definition w_cached :: "wl_snapshot slot" where
  "w_cached = Stored \<lparr>snap_watchlists = Some [w9], snap_items = Some [c1]\<rparr>"

text \<open>The lists a failed watchlist selection looks an id up in: those of the snapshot
  when it has both, the built-in defaults otherwise.\<close>

definition wl_held :: "wl_snapshot slot \<Rightarrow> watchlist list \<times> witem list" where
  "wl_held slot = (case slot of
       Stored d \<Rightarrow> (case (snap_watchlists d, snap_items d) of
           (Some ws, Some its) \<Rightarrow> (ws, its)
         | _ \<Rightarrow> (mockWatchlists, mockWatchlistItems))
     | _ \<Rightarrow> (mockWatchlists, mockWatchlistItems))"

text \<open>The lists a failed portfolio selection looks an id up in: those of a snapshot that
  has all three; there are no defaults.\<close>

definition pf_held ::
  "pf_snapshot slot \<Rightarrow> (portfolio list \<times> holding list \<times> transaction list) option" where
  "pf_held slot = (case slot of
       Stored d \<Rightarrow> (case (snap_portfolios d, snap_holdings d, snap_transactions d) of
           (Some ps, Some hs, Some ts) \<Rightarrow> Some (ps, hs, ts)
         | _ \<Rightarrow> None)
     | _ \<Rightarrow> None)"

text \<open>A snapshot that holds the example portfolio and its transaction.\<close>

definition p_cached :: "pf_snapshot slot" where
  "p_cached = Stored \<lparr>snap_portfolios = Some [p1], snap_holdings = Some [],
                       snap_transactions = Some [t1]\<rparr>"

section \<open>The HTTP client: outcomes of a request\<close>

text \<open>The promise of \<^verbatim>\<open>request\<close> rejects in one situation only: a response that is not
  ok, announces JSON, and whose body does not parse or is \<^verbatim>\<open>null\<close>.\<close>

lemma request_rejection_source:
  "fst (request fo store) = Inl e \<Longrightarrow>
     \<exists>r. fo = FetchResolved r \<and> \<not> ok r \<and> is_json (content_type r) \<and>
         (json_result r = Inl e \<or> json_result r = Inr JNull)"
  by (auto simp: request_def request_try_def request_catch_def handleError_def
        json_error_body_def
      split: fetch_outcome.splits if_splits sum.splits jv.splits)

text \<open>A 401 whose content type is not JSON reaches the \<^verbatim>\<open>switch\<close> and removes the
  token.\<close>

lemma unauthorized_plain_clears_token:
  "status r = 401 \<Longrightarrow> \<not> is_json (content_type r) \<Longrightarrow>
     snd (request (FetchResolved r) store) = None"
  by (simp add: request_def request_try_def ok_def handleError_def setAuthToken_def)

text \<open>
  Claim C7: every request made through the client is answered with an envelope
  \<^verbatim>\<open>{success: true, data}\<close> or \<^verbatim>\<open>{success: false, error}\<close> and never throws to the
  caller, also for a malformed response body.

  The code does not do this for an error response (status 500) that announces JSON and
  carries a body that is not JSON: \<^verbatim>\<open>handleError\<close> returns
  \<^verbatim>\<open>response.json().then(...)\<close> unawaited, its own \<^verbatim>\<open>try\<close> does not see the rejection,
  and neither does the \<^verbatim>\<open>try\<close> of \<^verbatim>\<open>request\<close>. The promise of \<^verbatim>\<open>request\<close> rejects
  with the parse error.
\<close>

theorem request_rejects_on_unparseable_error_body:
  "fst (request
     (FetchResolved \<lparr>status = 500, content_type = Some ''application/json'',
        json_result = Inl \<lparr>err_name = ''SyntaxError'', err_message = ''Unexpected token <''\<rparr>,
        text_result = Inr ''<html>Internal Server Error</html>''\<rparr>)
     (Some ''jwt-abc''))
   = Inl \<lparr>err_name = ''SyntaxError'', err_message = ''Unexpected token <''\<rparr>"
  by (simp add: request_def request_try_def ok_def handleError_def is_json_def)

text \<open>
  Claim C8: every response with status 401 clears the stored credential.

  The code does not do this for a 401 whose body is JSON (the error format the
  services' documentation asks the backend to send): \<^verbatim>\<open>handleError\<close> returns from its
  JSON branch before the \<^verbatim>\<open>switch\<close> that calls \<^verbatim>\<open>setAuthToken(null)\<close>. The envelope is
  returned and the token is still stored.
\<close>

theorem unauthorized_json_body_keeps_token:
  "request
     (FetchResolved \<lparr>status = 401, content_type = Some ''application/json'',
        json_result = Inr (JObj [(''error'', JStr ''Invalid token''),
                                 (''code'', JStr ''TOKEN_INVALID'')]),
        text_result = Inr []\<rparr>)
     (Some ''jwt-abc'')
   = (Inr (Failed \<lparr>message = JStr ''Invalid token'', code = JStr ''TOKEN_INVALID'',
                    http_status = Some 401,
                    details = Some (JObj [(''error'', JStr ''Invalid token''),
                                          (''code'', JStr ''TOKEN_INVALID'')])\<rparr>),
      Some ''jwt-abc'')"
  by (simp add: request_def request_try_def ok_def handleError_def is_json_def
        json_error_body_def js_or_def get_prop_def truthy_def)

section \<open>Running effect sequences\<close>

lemma run_wl_Nil: "run_wl [] w = w"
  by (simp add: run_wl_def)

lemma run_wl_Cons: "run_wl (ev # evs) w = run_wl evs (apply_wl ev w)"
  by (simp add: run_wl_def)

lemma run_wl_append: "run_wl (xs @ ys) w = run_wl ys (run_wl xs w)"
  by (simp add: run_wl_def)

lemma run_pf_Nil: "run_pf [] w = w"
  by (simp add: run_pf_def)

lemma run_pf_Cons: "run_pf (ev # evs) w = run_pf evs (apply_pf ev w)"
  by (simp add: run_pf_def)

lemma run_pf_append: "run_pf (xs @ ys) w = run_pf ys (run_pf xs w)"
  by (simp add: run_pf_def)

lemmas run_simps =
  run_wl_Nil run_wl_Cons run_wl_append run_pf_Nil run_pf_Cons run_pf_append

section \<open>Collection fetch: failure and fallback\<close>

lemma fetchWatchlists_failed_run:
  "failed out \<Longrightarrow>
     run_wl (fetchWatchlists slot out) (s, slot) =
       (s\<lparr>watchlists := cached_watchlists slot, loading := False,
          error := Some (ErrText (failure_text out ''Failed to fetch watchlists''))\<rparr>,
        snd (safeParseMockData slot))"
  by (auto simp: failed_def failure_text_def fetchWatchlists_def fetchWatchlists_try_def
        fetchWatchlists_catch_def parse_events_def safeParseMockData_def run_simps
      split: outcome.splits response.splits slot.splits)

lemma fetchPortfolios_failed_run:
  "failed out \<Longrightarrow>
     run_pf (fetchPortfolios slot out) (p, slot) =
       ((case cached_portfolios slot of
           Some ps \<Rightarrow> p\<lparr>portfolios := ps, pf_loading := False, pf_error := None\<rparr>
         | None \<Rightarrow> p\<lparr>pf_loading := False, pf_error := pf_failure out\<rparr>),
        snd (safeParseMockData slot))"
  by (auto simp: failed_def fetchPortfolios_def pf_failure_def
        fetchPortfolios_catch_def pf_parse_events_def safeParseMockData_def run_simps
        cached_portfolios_def
      split: outcome.splits response.splits slot.splits option.splits)

text \<open>
  Claim C1, as amended: when the remote request of a collection fetch fails, the
  snapshot is read. The watchlist manager then sets \<^verbatim>\<open>watchlists\<close> to the snapshot's list
  when the snapshot has one and to the built-in default list otherwise, and in both
  cases stores the failure message in \<^verbatim>\<open>error\<close>. The portfolio manager sets
  \<^verbatim>\<open>portfolios\<close> to the snapshot's list and leaves \<^verbatim>\<open>error\<close> cleared when the snapshot has
  one; otherwise it leaves \<^verbatim>\<open>portfolios\<close> as it was and stores the failure in \<^verbatim>\<open>error\<close>.
  Either way \<^verbatim>\<open>loading\<close> ends false.
\<close>

theorem fetch_failure_fallback:
  "(failed out \<longrightarrow>
      watchlists (wl_after (fetchWatchlists slot out) s slot) =
        (case slot of
           Stored d \<Rightarrow> (case snap_watchlists d of Some ws \<Rightarrow> ws | None \<Rightarrow> mockWatchlists)
         | _ \<Rightarrow> mockWatchlists) \<and>
      error (wl_after (fetchWatchlists slot out) s slot) =
        Some (ErrText (failure_text out ''Failed to fetch watchlists'')) \<and>
      loading (wl_after (fetchWatchlists slot out) s slot) = False) \<and>
   (failed pout \<longrightarrow>
      portfolios (pf_after (fetchPortfolios pslot pout) p pslot) =
        (case pslot of
           Stored d \<Rightarrow> (case snap_portfolios d of Some ps \<Rightarrow> ps | None \<Rightarrow> portfolios p)
         | _ \<Rightarrow> portfolios p) \<and>
      pf_error (pf_after (fetchPortfolios pslot pout) p pslot) =
        (case pslot of
           Stored d \<Rightarrow> (case snap_portfolios d of Some ps \<Rightarrow> None | None \<Rightarrow> pf_failure pout)
         | _ \<Rightarrow> pf_failure pout) \<and>
      pf_loading (pf_after (fetchPortfolios pslot pout) p pslot) = False)"
proof (intro conjI impI)
  assume f: "failed out"
  show "watchlists (wl_after (fetchWatchlists slot out) s slot) =
        (case slot of
           Stored d \<Rightarrow> (case snap_watchlists d of Some ws \<Rightarrow> ws | None \<Rightarrow> mockWatchlists)
         | _ \<Rightarrow> mockWatchlists)"
    by (simp add: wl_after_def fetchWatchlists_failed_run [OF f] cached_watchlists_def
          safeParseMockData_def split: slot.splits)
  show "error (wl_after (fetchWatchlists slot out) s slot) =
        Some (ErrText (failure_text out ''Failed to fetch watchlists''))"
    by (simp add: wl_after_def fetchWatchlists_failed_run [OF f])
  show "loading (wl_after (fetchWatchlists slot out) s slot) = False"
    by (simp add: wl_after_def fetchWatchlists_failed_run [OF f])
next
  assume f: "failed pout"
  show "portfolios (pf_after (fetchPortfolios pslot pout) p pslot) =
        (case pslot of
           Stored d \<Rightarrow> (case snap_portfolios d of Some ps \<Rightarrow> ps | None \<Rightarrow> portfolios p)
         | _ \<Rightarrow> portfolios p)"
    by (simp add: pf_after_def fetchPortfolios_failed_run [OF f] cached_portfolios_def
          safeParseMockData_def split: slot.splits option.splits)
  show "pf_error (pf_after (fetchPortfolios pslot pout) p pslot) =
        (case pslot of
           Stored d \<Rightarrow> (case snap_portfolios d of Some ps \<Rightarrow> None | None \<Rightarrow> pf_failure pout)
         | _ \<Rightarrow> pf_failure pout)"
    by (simp add: pf_after_def fetchPortfolios_failed_run [OF f] cached_portfolios_def
          safeParseMockData_def split: slot.splits option.splits)
  show "pf_loading (pf_after (fetchPortfolios pslot pout) p pslot) = False"
    by (simp add: pf_after_def fetchPortfolios_failed_run [OF f] cached_portfolios_def
          split: option.splits)
qed

theorem fetch_failure_fallback_witness:
  "failed (Rejected net_down :: watchlist list_data outcome) \<and>
   watchlists (wl_after (fetchWatchlists
      (Stored \<lparr>snap_watchlists = Some [w9], snap_items = None\<rparr>) (Rejected net_down))
      initial_wstate (Stored \<lparr>snap_watchlists = Some [w9], snap_items = None\<rparr>)) = [w9] \<and>
   error (wl_after (fetchWatchlists
      (Stored \<lparr>snap_watchlists = Some [w9], snap_items = None\<rparr>) (Rejected net_down))
      initial_wstate (Stored \<lparr>snap_watchlists = Some [w9], snap_items = None\<rparr>)) =
     Some (ErrText ''Failed to fetch'') \<and>
   failed (Resolved (Failure (Some server_error)) :: portfolio list_data outcome) \<and>
   portfolios (pf_after (fetchPortfolios Absent (Resolved (Failure (Some server_error))))
      (initial_pstate\<lparr>portfolios := [p1]\<rparr>) Absent) = [p1] \<and>
   pf_error (pf_after (fetchPortfolios Absent (Resolved (Failure (Some server_error))))
      (initial_pstate\<lparr>portfolios := [p1]\<rparr>) Absent) = Some (ErrObject server_error)"
  using fetch_failure_fallback [of "Rejected net_down"
      "Stored \<lparr>snap_watchlists = Some [w9], snap_items = None\<rparr>" initial_wstate
      "Resolved (Failure (Some server_error))" Absent "initial_pstate\<lparr>portfolios := [p1]\<rparr>"]
  by (simp add: failed_def failure_text_def pf_failure_def net_down_def initial_pstate_def)

text \<open>Claim C1 as stated fails: with no snapshot in storage, a failed
  \<^verbatim>\<open>fetchWatchlists\<close> does not leave the collection empty, it fills it with the two
  built-in default watchlists.\<close>

theorem fetch_failure_absent_snapshot_counterexample:
  "watchlists (wl_after (fetchWatchlists Absent (Rejected net_down)) initial_wstate Absent) \<noteq> []"
  by (simp add: wl_after_def fetchWatchlists_failed_run failed_def cached_watchlists_def
        safeParseMockData_def mockWatchlists_def)

section \<open>Collection fetch: success and the snapshot\<close>

lemma fetchWatchlists_success_run:
  "list_of_data d = Inr ws \<Longrightarrow>
     run_wl (fetchWatchlists slot (Resolved (Success d))) (s, slot') =
       (s\<lparr>watchlists := ws, loading := False, error := None\<rparr>, slot')"
  by (simp add: fetchWatchlists_def fetchWatchlists_try_def run_simps)

lemma fetchPortfolios_success_run:
  "list_of_data d = Inr ps \<Longrightarrow>
     run_pf (fetchPortfolios slot (Resolved (Success d))) (p, slot') =
       (p\<lparr>portfolios := ps, pf_loading := False, pf_error := None\<rparr>, slot')"
  by (simp add: fetchPortfolios_def run_simps)

text \<open>
  Claim C5, as amended: a successful collection fetch replaces the in-memory collection
  and leaves the Cache Snapshot exactly as it was; no operation of the managers writes
  it (only \<^verbatim>\<open>loadMockData\<close> does). A failed fetch that follows yields, for watchlists,
  the list held by the snapshot or else the built-in default list, whatever was fetched
  before; for portfolios, the list held by the snapshot or else the list fetched before,
  which is still in memory.
\<close>

theorem fetch_success_never_writes_snapshot:
  "(list_of_data d = Inr ws \<longrightarrow>
      run_wl (fetchWatchlists slot (Resolved (Success d))) (s, slot) =
        (s\<lparr>watchlists := ws, loading := False, error := None\<rparr>, slot)) \<and>
   (list_of_data d = Inr ws \<and> failed out \<longrightarrow>
      watchlists (fst (fetchWatchlists_twice s slot (Resolved (Success d)) out)) =
        (case slot of
           Stored sn \<Rightarrow> (case snap_watchlists sn of Some cs \<Rightarrow> cs | None \<Rightarrow> mockWatchlists)
         | _ \<Rightarrow> mockWatchlists)) \<and>
   (list_of_data pd = Inr ps \<longrightarrow>
      run_pf (fetchPortfolios pslot (Resolved (Success pd))) (p, pslot) =
        (p\<lparr>portfolios := ps, pf_loading := False, pf_error := None\<rparr>, pslot)) \<and>
   (list_of_data pd = Inr ps \<and> failed pout \<longrightarrow>
      portfolios (fst (fetchPortfolios_twice p pslot (Resolved (Success pd)) pout)) =
        (case pslot of
           Stored sn \<Rightarrow> (case snap_portfolios sn of Some cs \<Rightarrow> cs | None \<Rightarrow> ps)
         | _ \<Rightarrow> ps))"
proof (intro conjI impI)
  assume d: "list_of_data d = Inr ws"
  show "run_wl (fetchWatchlists slot (Resolved (Success d))) (s, slot) =
        (s\<lparr>watchlists := ws, loading := False, error := None\<rparr>, slot)"
    by (rule fetchWatchlists_success_run [OF d])
next
  assume "list_of_data d = Inr ws \<and> failed out"
  then have d: "list_of_data d = Inr ws" and f: "failed out" by simp_all
  show "watchlists (fst (fetchWatchlists_twice s slot (Resolved (Success d)) out)) =
        (case slot of
           Stored sn \<Rightarrow> (case snap_watchlists sn of Some cs \<Rightarrow> cs | None \<Rightarrow> mockWatchlists)
         | _ \<Rightarrow> mockWatchlists)"
    by (simp add: fetchWatchlists_twice_def fetchWatchlists_success_run [OF d]
          fetchWatchlists_failed_run [OF f] cached_watchlists_def safeParseMockData_def
          split: slot.splits)
next
  assume d: "list_of_data pd = Inr ps"
  show "run_pf (fetchPortfolios pslot (Resolved (Success pd))) (p, pslot) =
        (p\<lparr>portfolios := ps, pf_loading := False, pf_error := None\<rparr>, pslot)"
    by (rule fetchPortfolios_success_run [OF d])
next
  assume "list_of_data pd = Inr ps \<and> failed pout"
  then have d: "list_of_data pd = Inr ps" and f: "failed pout" by simp_all
  show "portfolios (fst (fetchPortfolios_twice p pslot (Resolved (Success pd)) pout)) =
        (case pslot of
           Stored sn \<Rightarrow> (case snap_portfolios sn of Some cs \<Rightarrow> cs | None \<Rightarrow> ps)
         | _ \<Rightarrow> ps)"
    by (simp add: fetchPortfolios_twice_def fetchPortfolios_success_run [OF d]
          fetchPortfolios_failed_run [OF f] cached_portfolios_def safeParseMockData_def
          split: slot.splits option.splits)
qed

theorem fetch_success_never_writes_snapshot_witness:
  "list_of_data (Bare [w9]) = Inr [w9] \<and>
   failed (Rejected net_down :: watchlist list_data outcome) \<and>
   run_wl (fetchWatchlists Absent (Resolved (Success (Bare [w9])))) (initial_wstate, Absent) =
     (initial_wstate\<lparr>watchlists := [w9], loading := False, error := None\<rparr>, Absent) \<and>
   watchlists (fst (fetchWatchlists_twice initial_wstate Absent
      (Resolved (Success (Bare [w9]))) (Rejected net_down))) = mockWatchlists \<and>
   list_of_data (Wrapped [p1]) = Inr [p1] \<and>
   failed (Rejected net_down :: portfolio list_data outcome) \<and>
   run_pf (fetchPortfolios Unparseable (Resolved (Success (Wrapped [p1]))))
      (initial_pstate, Unparseable) =
     (initial_pstate\<lparr>portfolios := [p1], pf_loading := False, pf_error := None\<rparr>, Unparseable) \<and>
   portfolios (fst (fetchPortfolios_twice initial_pstate Unparseable
      (Resolved (Success (Wrapped [p1]))) (Rejected net_down))) = [p1]"
  using fetch_success_never_writes_snapshot [of "Bare [w9]" "[w9]" Absent initial_wstate
      "Rejected net_down" "Wrapped [p1]" "[p1]" Unparseable initial_pstate "Rejected net_down"]
  by (simp add: list_of_data_def failed_def)

text \<open>Claim C5 as stated fails: with the snapshot that \<^verbatim>\<open>loadMockData\<close> wrote in
  storage, a successful fetch of \<open>[w9]\<close> leaves that snapshot as it was, and a failed
  fetch after it does not yield \<open>[w9]\<close>.\<close>

theorem refetch_after_success_counterexample:
  "snd (run_wl (fetchWatchlists (loadMockData_watchlists Absent)
          (Resolved (Success (Bare [w9]))))
        (initial_wstate, loadMockData_watchlists Absent)) =
     loadMockData_watchlists Absent \<and>
   watchlists (fst (fetchWatchlists_twice initial_wstate (loadMockData_watchlists Absent)
      (Resolved (Success (Bare [w9]))) (Rejected net_down))) \<noteq> [w9]"
  by (simp add: fetchWatchlists_twice_def fetchWatchlists_success_run list_of_data_def
        fetchWatchlists_failed_run failed_def cached_watchlists_def safeParseMockData_def
        loadMockData_watchlists_def mockWatchlists_def w9_def)

section \<open>Selection and the auto-select effect\<close>

lemma selectWatchlist_keeps_watchlists:
  "watchlists (fst (run_wl (selectWatchlist slot i out) (s, slot'))) = watchlists s"
  by (auto simp: selectWatchlist_def selectWatchlist_try_def selectWatchlist_catch_def
        parse_events_def run_simps
      split: outcome.splits response.splits wl_detail.splits slot.splits)

lemma run_pf_keeps_portfolios:
  "list_all (\<lambda>ev. \<not> writes_portfolios ev) evs \<Longrightarrow>
     portfolios (fst (run_pf evs w)) = portfolios (fst w)"
proof (induction evs arbitrary: w)
  case Nil
  then show ?case by (simp add: run_pf_Nil)
next
  case (Cons ev evs)
  obtain s slot where w: "w = (s, slot)" by (cases w)
  from Cons.prems have "portfolios (fst (apply_pf ev w)) = portfolios (fst w)"
    by (cases ev) (simp_all add: w writes_portfolios_def)
  with Cons show ?case by (simp add: run_pf_Cons)
qed

lemma run_pf_keeps_selection:
  "list_all (\<lambda>ev. \<not> clears_portfolio ev) evs \<Longrightarrow> currentPortfolio (fst w) \<noteq> None \<Longrightarrow>
     currentPortfolio (fst (run_pf evs w)) \<noteq> None"
proof (induction evs arbitrary: w)
  case Nil
  then show ?case by (simp add: run_pf_Nil)
next
  case (Cons ev evs)
  obtain s slot where w: "w = (s, slot)" by (cases w)
  from Cons.prems have "currentPortfolio (fst (apply_pf ev w)) \<noteq> None"
    by (cases ev) (auto simp add: w clears_portfolio_def split: option.splits)
  with Cons show ?case by (simp add: run_pf_Cons)
qed

lemma selectPortfolio_catch_events:
  "list_all (\<lambda>ev. \<not> writes_portfolios ev \<and> \<not> clears_portfolio ev)
     (selectPortfolio_catch slot i e)"
  by (simp add: selectPortfolio_catch_def pf_parse_events_def select_cached_def
        writes_portfolios_def clears_portfolio_def
      split: slot.splits option.splits prod.splits)

lemma selectPortfolio_failed_events:
  "list_all (\<lambda>ev. \<not> writes_portfolios ev \<and> \<not> clears_portfolio ev)
     (selectPortfolio_failed slot i e)"
  by (simp add: selectPortfolio_failed_def pf_parse_events_def select_cached_def
        writes_portfolios_def clears_portfolio_def
      split: slot.splits option.splits prod.splits)

lemma selectPortfolio_writes:
  "list_all (\<lambda>ev. \<not> writes_portfolios ev) (selectPortfolio slot i det_out hold_out)"
  using selectPortfolio_catch_events [of slot i] selectPortfolio_failed_events [of slot i]
  by (simp add: selectPortfolio_def selectPortfolio_start_def selectPortfolio_rest_def
        writes_portfolios_def list_all_iff
      split: outcome.splits response.splits sum.splits)

lemma selectPortfolio_keeps_portfolios:
  "portfolios (fst (run_pf (selectPortfolio slot i det_out hold_out) (s, slot'))) = portfolios s"
  by (simp add: run_pf_keeps_portfolios [OF selectPortfolio_writes])

lemma selectPortfolio_success_tail:
  "list_all (\<lambda>ev. \<not> clears_portfolio ev)
     (case hold_out of
        Rejected e \<Rightarrow> selectPortfolio_catch slot i e
      | Resolved (Failure e) \<Rightarrow> [PSetError (map_option ErrObject e)]
      | Resolved (Success d) \<Rightarrow> (case list_of_data d of
            Inl e \<Rightarrow> selectPortfolio_catch slot i e
          | Inr hs \<Rightarrow> [SetHoldings hs]))"
  using selectPortfolio_catch_events [of slot i]
  by (simp add: clears_portfolio_def list_all_iff
      split: outcome.splits response.splits sum.splits)

lemma selectPortfolio_success_current:
  "currentPortfolio (fst (run_pf
      (selectPortfolio slot i (Resolved (Success (Some q))) hold_out) (s, slot'))) \<noteq> None"
proof -
  let ?tail = "PRemote (PGetHoldings i) #
     (case hold_out of
        Rejected e \<Rightarrow> selectPortfolio_catch slot i e
      | Resolved (Failure e) \<Rightarrow> [PSetError (map_option ErrObject e)]
      | Resolved (Success d) \<Rightarrow> (case list_of_data d of
            Inl e \<Rightarrow> selectPortfolio_catch slot i e
          | Inr hs \<Rightarrow> [SetHoldings hs])) @ [PSetLoading False]"
  have events: "selectPortfolio slot i (Resolved (Success (Some q))) hold_out =
      selectPortfolio_start i @ SetCurrentPortfolio (Some q) # ?tail"
    by (simp add: selectPortfolio_def selectPortfolio_rest_def)
  have quiet: "list_all (\<lambda>ev. \<not> clears_portfolio ev) ?tail"
    using selectPortfolio_success_tail [where hold_out = hold_out and slot = slot and i = i]
    by (simp add: clears_portfolio_def)
  have "run_pf (selectPortfolio_start i @ SetCurrentPortfolio (Some q) # ?tail) (s, slot') =
      run_pf ?tail (s\<lparr>pf_loading := True, pf_error := None, currentPortfolio := Some q\<rparr>, slot')"
    by (simp only: run_pf_append run_pf_Cons run_pf_Nil selectPortfolio_start_def
          apply_pf.simps)
  with events show ?thesis
    by (simp add: run_pf_keeps_selection [OF quiet])
qed

lemma selectWatchlist_success_run:
  "run_wl (selectWatchlist slot i (Resolved (Success (Combined w its)))) (s, slot') =
     (s\<lparr>currentWatchlist := Some w, items := (case its of None \<Rightarrow> [] | Some xs \<Rightarrow> xs),
        loading := False, error := None\<rparr>, slot')"
  by (simp add: selectWatchlist_def selectWatchlist_try_def run_simps)

lemma cached_selection_held:
  "cached_selection slot i =
     (find (\<lambda>w. wl_id w = i) (fst (wl_held slot)),
      filter (\<lambda>item. it_watchlistId item = i) (snd (wl_held slot)))"
  by (simp add: cached_selection_def wl_held_def safeParseMockData_def
      split: slot.splits option.splits)

lemma selectWatchlist_failed_run:
  "failed out \<Longrightarrow>
     run_wl (selectWatchlist slot i out) (s, slot) =
       (s\<lparr>currentWatchlist := find (\<lambda>w. wl_id w = i) (fst (wl_held slot)),
          items := filter (\<lambda>item. it_watchlistId item = i) (snd (wl_held slot)),
          loading := False,
          error := Some (ErrText (failure_text out ''Failed to fetch watchlist items''))\<rparr>,
        snd (safeParseMockData slot))"
  by (auto simp: failed_def failure_text_def selectWatchlist_def selectWatchlist_try_def
        selectWatchlist_catch_def parse_events_def safeParseMockData_def run_simps
        cached_selection_held
      split: outcome.splits response.splits slot.splits)

lemma selectWatchlist_item_run:
  "out = Resolved (Success (Combined w its)) \<or> out = Resolved (Success (BareWatchlist w its)) \<Longrightarrow>
   run_wl (selectWatchlist slot i out) (s, slot') =
     (s\<lparr>currentWatchlist := Some w, items := (case its of None \<Rightarrow> [] | Some xs \<Rightarrow> xs),
        loading := False, error := None\<rparr>, slot')"
  by (auto simp: selectWatchlist_def selectWatchlist_try_def run_simps)

lemma complete_snapshot_held: "complete_snapshot slot = pf_held slot"
  by (simp add: complete_snapshot_def pf_held_def safeParseMockData_def
      split: slot.splits option.splits)

lemma find_id: "find (\<lambda>x. pf_id x = i) ps = Some pp \<Longrightarrow> pf_id pp = i"
  by (auto simp: find_Some_iff)

lemma pf_parse_events_run:
  "run_pf (pf_parse_events slot) (s, slot) = (s, snd (safeParseMockData slot))"
  by (simp add: pf_parse_events_def safeParseMockData_def run_simps split: slot.splits)

lemma selectPortfolio_failure_run:
  "run_pf (selectPortfolio slot i (Resolved (Failure fe)) hold_out) (s, slot) =
     ((case pf_held slot of
         None \<Rightarrow> s\<lparr>pf_loading := False, pf_error := map_option ErrObject fe\<rparr>
       | Some (cps, chs, cts) \<Rightarrow> (case find (\<lambda>x. pf_id x = i) cps of
             None \<Rightarrow> s\<lparr>pf_loading := False, pf_error := map_option ErrObject fe\<rparr>
           | Some pp \<Rightarrow>
               s\<lparr>currentPortfolio := Some pp,
                 holdings := filter (\<lambda>h. hl_portfolioId h = i) chs,
                 transactions := filter (\<lambda>t. tx_portfolioId t = i) cts,
                 pf_loading := False, pf_error := None\<rparr>)),
      snd (safeParseMockData slot))"
  by (auto simp: selectPortfolio_def selectPortfolio_start_def selectPortfolio_rest_def
        selectPortfolio_failed_def select_cached_def complete_snapshot_held
        run_pf_append [of "pf_parse_events slot"] pf_parse_events_run run_pf_Cons run_pf_Nil
        run_pf_append [of "[_, _, _]"] dest: find_id
      split: option.splits prod.splits)

lemma selectPortfolio_catch_run:
  "run_pf (selectPortfolio_catch slot i e @ [PSetLoading False]) (s, slot) =
     ((case pf_held slot of
         None \<Rightarrow>
           s\<lparr>pf_loading := False,
             pf_error := Some (ErrText (if err_message e \<noteq> [] then err_message e
                                        else ''Failed to load portfolio''))\<rparr>
       | Some (cps, chs, cts) \<Rightarrow> (case find (\<lambda>x. pf_id x = i) cps of
             None \<Rightarrow> s\<lparr>pf_loading := False, pf_error := Some (ErrText ''Portfolio not found'')\<rparr>
           | Some pp \<Rightarrow>
               s\<lparr>currentPortfolio := Some pp,
                 holdings := filter (\<lambda>h. hl_portfolioId h = i) chs,
                 transactions := filter (\<lambda>t. tx_portfolioId t = i) cts,
                 pf_loading := False\<rparr>)),
      snd (safeParseMockData slot))"
  by (auto simp: selectPortfolio_catch_def select_cached_def complete_snapshot_held
        run_pf_append [of "pf_parse_events slot"] pf_parse_events_run run_pf_Cons run_pf_Nil
        run_pf_append [of _ "[PSetLoading False]"] dest: find_id
      split: option.splits prod.splits)

lemma selectPortfolio_rejected_run:
  "run_pf (selectPortfolio slot i (Rejected e) hold_out) (s, slot) =
     ((case pf_held slot of
         None \<Rightarrow>
           s\<lparr>pf_loading := False,
             pf_error := Some (ErrText (if err_message e \<noteq> [] then err_message e
                                        else ''Failed to load portfolio''))\<rparr>
       | Some (cps, chs, cts) \<Rightarrow> (case find (\<lambda>x. pf_id x = i) cps of
             None \<Rightarrow> s\<lparr>pf_loading := False, pf_error := Some (ErrText ''Portfolio not found'')\<rparr>
           | Some pp \<Rightarrow>
               s\<lparr>currentPortfolio := Some pp,
                 holdings := filter (\<lambda>h. hl_portfolioId h = i) chs,
                 transactions := filter (\<lambda>t. tx_portfolioId t = i) cts,
                 pf_loading := False, pf_error := None\<rparr>)),
      snd (safeParseMockData slot))"
proof -
  have start: "run_pf (selectPortfolio_start i) (s, slot) =
      (s\<lparr>pf_loading := True, pf_error := None\<rparr>, slot)"
    by (simp add: selectPortfolio_start_def run_simps)
  show ?thesis
    by (simp add: selectPortfolio_def selectPortfolio_rest_def
          run_pf_append [of "selectPortfolio_start i"] start selectPortfolio_catch_run
        split: option.splits prod.splits)
qed

lemma selectPortfolio_holdings_run:
  "list_of_data hdat = Inr hs \<Longrightarrow>
   run_pf (selectPortfolio slot i (Resolved (Success q)) (Resolved (Success hdat))) (s, slot') =
     (s\<lparr>currentPortfolio := q, holdings := hs, pf_loading := False, pf_error := None\<rparr>, slot')"
  by (simp add: selectPortfolio_def selectPortfolio_start_def selectPortfolio_rest_def run_simps)

lemma selectPortfolio_holdings_failure_run:
  "run_pf (selectPortfolio slot i (Resolved (Success q)) (Resolved (Failure hfe))) (s, slot') =
     (s\<lparr>currentPortfolio := q, pf_loading := False, pf_error := map_option ErrObject hfe\<rparr>,
      slot')"
  by (simp add: selectPortfolio_def selectPortfolio_start_def selectPortfolio_rest_def run_simps)


lemma selectPortfolio_holdings_rejected_run:
  "run_pf (selectPortfolio slot i (Resolved (Success q)) (Rejected e)) (s, slot) =
     ((case pf_held slot of
         None \<Rightarrow>
           s\<lparr>currentPortfolio := q, pf_loading := False,
             pf_error := Some (ErrText (if err_message e \<noteq> [] then err_message e
                                        else ''Failed to load portfolio''))\<rparr>
       | Some (cps, chs, cts) \<Rightarrow> (case find (\<lambda>x. pf_id x = i) cps of
             None \<Rightarrow> s\<lparr>currentPortfolio := q, pf_loading := False,
                       pf_error := Some (ErrText ''Portfolio not found'')\<rparr>
           | Some pp \<Rightarrow>
               s\<lparr>currentPortfolio := Some pp,
                 holdings := filter (\<lambda>h. hl_portfolioId h = i) chs,
                 transactions := filter (\<lambda>t. tx_portfolioId t = i) cts,
                 pf_loading := False, pf_error := None\<rparr>)),
      snd (safeParseMockData slot))"
proof -
  have start: "run_pf (selectPortfolio_start i @
        [SetCurrentPortfolio q, PRemote (PGetHoldings i)]) (s, slot) =
      (s\<lparr>pf_loading := True, pf_error := None, currentPortfolio := q\<rparr>, slot)"
    by (simp add: selectPortfolio_start_def run_simps)
  have events: "selectPortfolio slot i (Resolved (Success q)) (Rejected e) =
      (selectPortfolio_start i @ [SetCurrentPortfolio q, PRemote (PGetHoldings i)]) @
      (selectPortfolio_catch slot i e @ [PSetLoading False])"
    by (simp add: selectPortfolio_def selectPortfolio_rest_def)
  show ?thesis
    unfolding events run_pf_append [of "selectPortfolio_start i @ _"] start
    by (simp add: selectPortfolio_catch_run split: option.splits prod.splits)
qed

text \<open>
  Claim C2, as amended: in every state whose selection is null and whose collection is
  non-empty the auto-select effect invokes \<^verbatim>\<open>select(collection[0].id)\<close>, which issues a
  remote call; \<^verbatim>\<open>select\<close> never changes the collection; in a state whose selection is
  set the effect does nothing. The selection afterwards is what the remote or the
  fallback yields for that id, not \<^verbatim>\<open>collection[0]\<close> itself.

  Watchlists: when the remote answers with an item (wrapped in \<^verbatim>\<open>watchlist\<close> or bare), the
  selection becomes that item and \<^verbatim>\<open>error\<close> is null, so the effect does not fire again;
  when the remote call fails, the selection becomes the entry with that id in the
  snapshot's list (or, without a snapshot holding both lists, in the built-in defaults),
  null when there is none, the items become the entries of that watchlist, and \<^verbatim>\<open>error\<close>
  holds the failure message.

  Portfolios: when the detail call answers with an item the selection is set, so the
  effect does not fire again; it is that item when the holdings call resolves, and when
  the holdings call is rejected it is the snapshot's entry for the id if a complete
  snapshot has one and that item otherwise. When the detail call fails, the selection
  becomes the entry with that id in a complete snapshot, with its holdings and
  transactions; without such an entry the selection stays null and \<^verbatim>\<open>error\<close> is set.
\<close>

theorem auto_select_fires_once:
  "(currentWatchlist s = None \<and> watchlists s = w # ws \<longrightarrow>
      autoSelectWatchlist s slot out = selectWatchlist slot (wl_id w) out \<and>
      list_ex is_remote (autoSelectWatchlist s slot out)) \<and>
   watchlists (wl_after (selectWatchlist slot i out) s slot) = watchlists s \<and>
   (currentWatchlist s' = Some c \<longrightarrow> autoSelectWatchlist s' slot out = []) \<and>
   (currentWatchlist s = None \<and> watchlists s = w # ws \<and>
    out = Resolved (Success (Combined w' its)) \<longrightarrow>
      currentWatchlist (wl_after (autoSelectWatchlist s slot out) s slot) = Some w' \<and>
      autoSelectWatchlist (wl_after (autoSelectWatchlist s slot out) s slot) slot out' = []) \<and>
   (currentWatchlist s = None \<and> watchlists s = w # ws \<and>
    (out = Resolved (Success (Combined w' its)) \<or>
     out = Resolved (Success (BareWatchlist w' its))) \<longrightarrow>
      wl_after (autoSelectWatchlist s slot out) s slot =
        s\<lparr>currentWatchlist := Some w', items := (case its of None \<Rightarrow> [] | Some xs \<Rightarrow> xs),
          loading := False, error := None\<rparr> \<and>
      autoSelectWatchlist (wl_after (autoSelectWatchlist s slot out) s slot) slot out' = []) \<and>
   (currentWatchlist s = None \<and> watchlists s = w # ws \<and> failed out \<longrightarrow>
      wl_after (autoSelectWatchlist s slot out) s slot =
        s\<lparr>currentWatchlist := find (\<lambda>x. wl_id x = wl_id w) (fst (wl_held slot)),
          items := filter (\<lambda>x. it_watchlistId x = wl_id w) (snd (wl_held slot)),
          loading := False,
          error := Some (ErrText (failure_text out ''Failed to fetch watchlist items''))\<rparr>) \<and>
   (currentPortfolio p = None \<and> portfolios p = q # qs \<longrightarrow>
      autoSelectPortfolio p pslot det_out hold_out =
        selectPortfolio pslot (pf_id q) det_out hold_out \<and>
      list_ex pf_is_remote (autoSelectPortfolio p pslot det_out hold_out)) \<and>
   portfolios (pf_after (selectPortfolio pslot j det_out hold_out) p pslot) = portfolios p \<and>
   (currentPortfolio p' = Some pc \<longrightarrow> autoSelectPortfolio p' pslot det_out hold_out = []) \<and>
   (currentPortfolio p = None \<and> portfolios p = q # qs \<and>
    det_out = Resolved (Success (Some q')) \<longrightarrow>
      currentPortfolio (pf_after (autoSelectPortfolio p pslot det_out hold_out) p pslot) \<noteq> None \<and>
      autoSelectPortfolio (pf_after (autoSelectPortfolio p pslot det_out hold_out) p pslot)
        pslot det_out' hold_out' = []) \<and>
   (currentPortfolio p = None \<and> portfolios p = q # qs \<and>
    det_out = Resolved (Success (Some q')) \<and> hold_out = Resolved (Success hdat) \<and>
    list_of_data hdat = Inr hs \<longrightarrow>
      pf_after (autoSelectPortfolio p pslot det_out hold_out) p pslot =
        p\<lparr>currentPortfolio := Some q', holdings := hs, pf_loading := False,
          pf_error := None\<rparr>) \<and>
   (currentPortfolio p = None \<and> portfolios p = q # qs \<and>
    det_out = Resolved (Success (Some q')) \<and> hold_out = Resolved (Failure hfe) \<longrightarrow>
      pf_after (autoSelectPortfolio p pslot det_out hold_out) p pslot =
        p\<lparr>currentPortfolio := Some q', pf_loading := False,
          pf_error := map_option ErrObject hfe\<rparr>) \<and>
   (currentPortfolio p = None \<and> portfolios p = q # qs \<and>
    det_out = Resolved (Success (Some q')) \<and> hold_out = Rejected he \<longrightarrow>
      pf_after (autoSelectPortfolio p pslot det_out hold_out) p pslot =
        (case pf_held pslot of
           None \<Rightarrow>
             p\<lparr>currentPortfolio := Some q', pf_loading := False,
               pf_error := Some (ErrText (if err_message he \<noteq> [] then err_message he
                                          else ''Failed to load portfolio''))\<rparr>
         | Some (cps, chs, cts) \<Rightarrow> (case find (\<lambda>x. pf_id x = pf_id q) cps of
               None \<Rightarrow>
                 p\<lparr>currentPortfolio := Some q', pf_loading := False,
                   pf_error := Some (ErrText ''Portfolio not found'')\<rparr>
             | Some pp \<Rightarrow>
                 p\<lparr>currentPortfolio := Some pp,
                   holdings := filter (\<lambda>h. hl_portfolioId h = pf_id q) chs,
                   transactions := filter (\<lambda>t. tx_portfolioId t = pf_id q) cts,
                   pf_loading := False, pf_error := None\<rparr>))) \<and>
   (currentPortfolio p = None \<and> portfolios p = q # qs \<and>
    det_out = Resolved (Failure fe) \<longrightarrow>
      pf_after (autoSelectPortfolio p pslot det_out hold_out) p pslot =
        (case pf_held pslot of
           None \<Rightarrow> p\<lparr>pf_loading := False, pf_error := map_option ErrObject fe\<rparr>
         | Some (cps, chs, cts) \<Rightarrow> (case find (\<lambda>x. pf_id x = pf_id q) cps of
               None \<Rightarrow> p\<lparr>pf_loading := False, pf_error := map_option ErrObject fe\<rparr>
             | Some pp \<Rightarrow>
                 p\<lparr>currentPortfolio := Some pp,
                   holdings := filter (\<lambda>h. hl_portfolioId h = pf_id q) chs,
                   transactions := filter (\<lambda>t. tx_portfolioId t = pf_id q) cts,
                   pf_loading := False, pf_error := None\<rparr>))) \<and>
   (currentPortfolio p = None \<and> portfolios p = q # qs \<and> det_out = Rejected e \<longrightarrow>
      pf_after (autoSelectPortfolio p pslot det_out hold_out) p pslot =
        (case pf_held pslot of
           None \<Rightarrow>
             p\<lparr>pf_loading := False,
               pf_error := Some (ErrText (if err_message e \<noteq> [] then err_message e
                                          else ''Failed to load portfolio''))\<rparr>
         | Some (cps, chs, cts) \<Rightarrow> (case find (\<lambda>x. pf_id x = pf_id q) cps of
               None \<Rightarrow> p\<lparr>pf_loading := False,
                         pf_error := Some (ErrText ''Portfolio not found'')\<rparr>
             | Some pp \<Rightarrow>
                 p\<lparr>currentPortfolio := Some pp,
                   holdings := filter (\<lambda>h. hl_portfolioId h = pf_id q) chs,
                   transactions := filter (\<lambda>t. tx_portfolioId t = pf_id q) cts,
                   pf_loading := False, pf_error := None\<rparr>)))"
proof (intro conjI impI)
  assume a: "currentWatchlist s = None \<and> watchlists s = w # ws"
  then show "autoSelectWatchlist s slot out = selectWatchlist slot (wl_id w) out"
    by (simp add: autoSelectWatchlist_def)
  from a show "list_ex is_remote (autoSelectWatchlist s slot out)"
    by (simp add: autoSelectWatchlist_def selectWatchlist_def is_remote_def)
next
  show "watchlists (wl_after (selectWatchlist slot i out) s slot) = watchlists s"
    by (simp add: wl_after_def selectWatchlist_keeps_watchlists)
next
  assume "currentWatchlist s' = Some c"
  then show "autoSelectWatchlist s' slot out = []"
    by (simp add: autoSelectWatchlist_def)
next
  assume a: "currentWatchlist s = None \<and> watchlists s = w # ws \<and>
    out = Resolved (Success (Combined w' its))"
  then show cur: "currentWatchlist (wl_after (autoSelectWatchlist s slot out) s slot) = Some w'"
    by (simp add: autoSelectWatchlist_def wl_after_def selectWatchlist_success_run)
  then show "autoSelectWatchlist (wl_after (autoSelectWatchlist s slot out) s slot) slot out' = []"
    by (simp add: autoSelectWatchlist_def)
next
  assume a: "currentWatchlist s = None \<and> watchlists s = w # ws \<and>
    (out = Resolved (Success (Combined w' its)) \<or>
     out = Resolved (Success (BareWatchlist w' its)))"
  then have sel: "autoSelectWatchlist s slot out = selectWatchlist slot (wl_id w) out"
    and item: "out = Resolved (Success (Combined w' its)) \<or>
      out = Resolved (Success (BareWatchlist w' its))"
    by (simp_all add: autoSelectWatchlist_def)
  show after: "wl_after (autoSelectWatchlist s slot out) s slot =
        s\<lparr>currentWatchlist := Some w', items := (case its of None \<Rightarrow> [] | Some xs \<Rightarrow> xs),
          loading := False, error := None\<rparr>"
    by (simp add: sel wl_after_def selectWatchlist_item_run [OF item])
  show "autoSelectWatchlist (wl_after (autoSelectWatchlist s slot out) s slot) slot out' = []"
    unfolding after by (simp add: autoSelectWatchlist_def)
next
  assume a: "currentWatchlist s = None \<and> watchlists s = w # ws \<and> failed out"
  then have sel: "autoSelectWatchlist s slot out = selectWatchlist slot (wl_id w) out"
    and f: "failed out"
    by (simp_all add: autoSelectWatchlist_def)
  show "wl_after (autoSelectWatchlist s slot out) s slot =
        s\<lparr>currentWatchlist := find (\<lambda>x. wl_id x = wl_id w) (fst (wl_held slot)),
          items := filter (\<lambda>x. it_watchlistId x = wl_id w) (snd (wl_held slot)),
          loading := False,
          error := Some (ErrText (failure_text out ''Failed to fetch watchlist items''))\<rparr>"
    by (simp add: sel wl_after_def selectWatchlist_failed_run [OF f])
next
  assume a: "currentPortfolio p = None \<and> portfolios p = q # qs"
  then show "autoSelectPortfolio p pslot det_out hold_out =
        selectPortfolio pslot (pf_id q) det_out hold_out"
    by (simp add: autoSelectPortfolio_def)
  from a show "list_ex pf_is_remote (autoSelectPortfolio p pslot det_out hold_out)"
    by (simp add: autoSelectPortfolio_def selectPortfolio_def selectPortfolio_start_def
          pf_is_remote_def)
next
  show "portfolios (pf_after (selectPortfolio pslot j det_out hold_out) p pslot) = portfolios p"
    by (simp add: pf_after_def selectPortfolio_keeps_portfolios)
next
  assume "currentPortfolio p' = Some pc"
  then show "autoSelectPortfolio p' pslot det_out hold_out = []"
    by (simp add: autoSelectPortfolio_def)
next
  assume a: "currentPortfolio p = None \<and> portfolios p = q # qs \<and>
    det_out = Resolved (Success (Some q'))"
  then show cur: "currentPortfolio
      (pf_after (autoSelectPortfolio p pslot det_out hold_out) p pslot) \<noteq> None"
    by (simp add: autoSelectPortfolio_def pf_after_def selectPortfolio_success_current)
  then show "autoSelectPortfolio (pf_after (autoSelectPortfolio p pslot det_out hold_out) p pslot)
        pslot det_out' hold_out' = []"
    by (auto simp add: autoSelectPortfolio_def split: option.splits)
next
  assume "currentPortfolio p = None \<and> portfolios p = q # qs \<and>
    det_out = Resolved (Success (Some q')) \<and> hold_out = Resolved (Success hdat) \<and>
    list_of_data hdat = Inr hs"
  then show "pf_after (autoSelectPortfolio p pslot det_out hold_out) p pslot =
        p\<lparr>currentPortfolio := Some q', holdings := hs, pf_loading := False,
          pf_error := None\<rparr>"
    by (simp add: autoSelectPortfolio_def pf_after_def selectPortfolio_holdings_run)
next
  assume "currentPortfolio p = None \<and> portfolios p = q # qs \<and>
    det_out = Resolved (Success (Some q')) \<and> hold_out = Resolved (Failure hfe)"
  then show "pf_after (autoSelectPortfolio p pslot det_out hold_out) p pslot =
        p\<lparr>currentPortfolio := Some q', pf_loading := False,
          pf_error := map_option ErrObject hfe\<rparr>"
    by (simp add: autoSelectPortfolio_def pf_after_def selectPortfolio_holdings_failure_run)
next
  assume "currentPortfolio p = None \<and> portfolios p = q # qs \<and>
    det_out = Resolved (Success (Some q')) \<and> hold_out = Rejected he"
  then show "pf_after (autoSelectPortfolio p pslot det_out hold_out) p pslot =
        (case pf_held pslot of
           None \<Rightarrow>
             p\<lparr>currentPortfolio := Some q', pf_loading := False,
               pf_error := Some (ErrText (if err_message he \<noteq> [] then err_message he
                                          else ''Failed to load portfolio''))\<rparr>
         | Some (cps, chs, cts) \<Rightarrow> (case find (\<lambda>x. pf_id x = pf_id q) cps of
               None \<Rightarrow>
                 p\<lparr>currentPortfolio := Some q', pf_loading := False,
                   pf_error := Some (ErrText ''Portfolio not found'')\<rparr>
             | Some pp \<Rightarrow>
                 p\<lparr>currentPortfolio := Some pp,
                   holdings := filter (\<lambda>h. hl_portfolioId h = pf_id q) chs,
                   transactions := filter (\<lambda>t. tx_portfolioId t = pf_id q) cts,
                   pf_loading := False, pf_error := None\<rparr>))"
    by (simp add: autoSelectPortfolio_def pf_after_def selectPortfolio_holdings_rejected_run
          split: option.splits prod.splits)
next
  assume "currentPortfolio p = None \<and> portfolios p = q # qs \<and>
    det_out = Resolved (Failure fe)"
  then show "pf_after (autoSelectPortfolio p pslot det_out hold_out) p pslot =
        (case pf_held pslot of
           None \<Rightarrow> p\<lparr>pf_loading := False, pf_error := map_option ErrObject fe\<rparr>
         | Some (cps, chs, cts) \<Rightarrow> (case find (\<lambda>x. pf_id x = pf_id q) cps of
               None \<Rightarrow> p\<lparr>pf_loading := False, pf_error := map_option ErrObject fe\<rparr>
             | Some pp \<Rightarrow>
                 p\<lparr>currentPortfolio := Some pp,
                   holdings := filter (\<lambda>h. hl_portfolioId h = pf_id q) chs,
                   transactions := filter (\<lambda>t. tx_portfolioId t = pf_id q) cts,
                   pf_loading := False, pf_error := None\<rparr>))"
    by (simp add: autoSelectPortfolio_def pf_after_def selectPortfolio_failure_run
          split: option.splits prod.splits)
next
  assume "currentPortfolio p = None \<and> portfolios p = q # qs \<and> det_out = Rejected e"
  then show "pf_after (autoSelectPortfolio p pslot det_out hold_out) p pslot =
        (case pf_held pslot of
           None \<Rightarrow>
             p\<lparr>pf_loading := False,
               pf_error := Some (ErrText (if err_message e \<noteq> [] then err_message e
                                          else ''Failed to load portfolio''))\<rparr>
         | Some (cps, chs, cts) \<Rightarrow> (case find (\<lambda>x. pf_id x = pf_id q) cps of
               None \<Rightarrow> p\<lparr>pf_loading := False,
                         pf_error := Some (ErrText ''Portfolio not found'')\<rparr>
             | Some pp \<Rightarrow>
                 p\<lparr>currentPortfolio := Some pp,
                   holdings := filter (\<lambda>h. hl_portfolioId h = pf_id q) chs,
                   transactions := filter (\<lambda>t. tx_portfolioId t = pf_id q) cts,
                   pf_loading := False, pf_error := None\<rparr>))"
    by (simp add: autoSelectPortfolio_def pf_after_def selectPortfolio_rejected_run
          split: option.splits prod.splits)
qed


theorem auto_select_fires_once_witness:
  "currentWatchlist w_loaded = None \<and> watchlists w_loaded = [w9] \<and>
   autoSelectWatchlist w_loaded Absent (Resolved (Success (Combined w9 (Some [c1])))) =
     selectWatchlist Absent (wl_id w9) (Resolved (Success (Combined w9 (Some [c1])))) \<and>
   watchlists (wl_after (selectWatchlist Absent (wl_id w9)
      (Resolved (Success (Combined w9 (Some [c1]))))) w_loaded Absent) = [w9] \<and>
   currentWatchlist w_selected = Some w9 \<and>
   autoSelectWatchlist w_selected Absent (Resolved (Success (Combined w9 (Some [c1])))) = [] \<and>
   currentWatchlist (wl_after (autoSelectWatchlist w_loaded Absent
      (Resolved (Success (Combined w9 (Some [c1]))))) w_loaded Absent) = Some w9 \<and>
   autoSelectWatchlist (wl_after (autoSelectWatchlist w_loaded Absent
      (Resolved (Success (Combined w9 (Some [c1]))))) w_loaded Absent) Absent (Rejected net_down) = [] \<and>
   currentWatchlist (wl_after (autoSelectWatchlist w_loaded Absent
      (Resolved (Success (BareWatchlist w9 None)))) w_loaded Absent) = Some w9 \<and>
   items (wl_after (autoSelectWatchlist w_loaded Absent
      (Resolved (Success (BareWatchlist w9 None)))) w_loaded Absent) = [] \<and>
   failed (Rejected net_down :: wl_detail outcome) \<and>
   currentWatchlist (wl_after (autoSelectWatchlist w_loaded w_cached (Rejected net_down))
      w_loaded w_cached) = Some w9 \<and>
   items (wl_after (autoSelectWatchlist w_loaded w_cached (Rejected net_down))
      w_loaded w_cached) = [c1] \<and>
   error (wl_after (autoSelectWatchlist w_loaded w_cached (Rejected net_down))
      w_loaded w_cached) = Some (ErrText ''Failed to fetch'') \<and>
   currentPortfolio p_loaded = None \<and> portfolios p_loaded = [p1] \<and>
   autoSelectPortfolio p_loaded Absent (Resolved (Success (Some p1))) (Rejected net_down) =
     selectPortfolio Absent (pf_id p1) (Resolved (Success (Some p1))) (Rejected net_down) \<and>
   portfolios (pf_after (selectPortfolio Absent (pf_id p1) (Resolved (Success (Some p1)))
      (Rejected net_down)) p_loaded Absent) = [p1] \<and>
   currentPortfolio p_selected = Some p1 \<and>
   autoSelectPortfolio p_selected Absent (Resolved (Success (Some p1))) (Rejected net_down) = [] \<and>
   currentPortfolio (pf_after (autoSelectPortfolio p_loaded Absent (Resolved (Success (Some p1)))
      (Rejected net_down)) p_loaded Absent) = Some p1 \<and>
   pf_error (pf_after (autoSelectPortfolio p_loaded Absent (Resolved (Success (Some p1)))
      (Rejected net_down)) p_loaded Absent) = Some (ErrText ''Failed to fetch'') \<and>
   autoSelectPortfolio (pf_after (autoSelectPortfolio p_loaded Absent
      (Resolved (Success (Some p1))) (Rejected net_down)) p_loaded Absent)
      Absent (Rejected net_down) (Rejected net_down) = [] \<and>
   list_of_data (Bare ([] :: holding list)) = Inr [] \<and>
   currentPortfolio (pf_after (autoSelectPortfolio p_loaded Absent (Resolved (Success (Some p1)))
      (Resolved (Success (Bare [])))) p_loaded Absent) = Some p1 \<and>
   pf_error (pf_after (autoSelectPortfolio p_loaded Absent (Resolved (Success (Some p1)))
      (Resolved (Failure (Some server_error)))) p_loaded Absent) =
     Some (ErrObject server_error) \<and>
   currentPortfolio (pf_after (autoSelectPortfolio p_loaded Absent
      (Resolved (Failure (Some server_error))) (Rejected net_down)) p_loaded Absent) = None \<and>
   pf_error (pf_after (autoSelectPortfolio p_loaded Absent
      (Resolved (Failure (Some server_error))) (Rejected net_down)) p_loaded Absent) =
     Some (ErrObject server_error) \<and>
   currentPortfolio (pf_after (autoSelectPortfolio p_loaded p_cached
      (Rejected net_down) (Rejected net_down)) p_loaded p_cached) = Some p1 \<and>
   transactions (pf_after (autoSelectPortfolio p_loaded p_cached
      (Rejected net_down) (Rejected net_down)) p_loaded p_cached) = [t1] \<and>
   pf_error (pf_after (autoSelectPortfolio p_loaded p_cached
      (Rejected net_down) (Rejected net_down)) p_loaded p_cached) = None"
proof -
  have hyps:
    "currentWatchlist w_loaded = None" "watchlists w_loaded = [w9]"
    "currentWatchlist w_selected = Some w9"
    "currentPortfolio p_loaded = None" "portfolios p_loaded = [p1]"
    "currentPortfolio p_selected = Some p1"
    "failed (Rejected net_down :: wl_detail outcome)"
    "list_of_data (Bare ([] :: holding list)) = Inr []"
    by (simp_all add: w_loaded_def w_selected_def p_loaded_def p_selected_def
          initial_wstate_def initial_pstate_def failed_def list_of_data_def)
  have vals:
    "wl_held w_cached = ([w9], [c1])"
    "it_watchlistId c1 = wl_id w9"
    "failure_text (Rejected net_down :: wl_detail outcome) ''Failed to fetch watchlist items'' =
       ''Failed to fetch''"
    "err_message net_down = ''Failed to fetch''"
    "pf_held Absent = None"
    "pf_held p_cached = Some ([p1], [], [t1])"
    "tx_portfolioId t1 = pf_id p1"
    by (simp_all add: wl_held_def pf_held_def w_cached_def p_cached_def w9_def c1_def p1_def
          t1_def failure_text_def net_down_def)
  note item = auto_select_fires_once [where s = w_loaded and w = w9 and ws = "[]"
      and slot = Absent
      and out = "Resolved (Success (Combined w9 (Some [c1])))" and i = "wl_id w9" and j = "pf_id p1"
      and s' = w_selected and c = w9 and w' = w9 and its = "Some [c1]"
      and out' = "Rejected net_down"
      and p = p_loaded and q = p1 and qs = "[]" and pslot = Absent
      and det_out = "Resolved (Success (Some p1))" and hold_out = "Rejected net_down"
      and he = net_down
      and p' = p_selected and pc = p1 and q' = p1
      and det_out' = "Rejected net_down" and hold_out' = "Rejected net_down"]
  note bare = auto_select_fires_once [where s = w_loaded and w = w9 and ws = "[]"
      and slot = Absent and out = "Resolved (Success (BareWatchlist w9 None))"
      and w' = w9 and its = None
      and p = p_loaded and q = p1 and qs = "[]" and pslot = Absent
      and det_out = "Resolved (Success (Some p1))" and q' = p1
      and hold_out = "Resolved (Success (Bare []))" and hdat = "Bare []" and hs = "[]"]
  note down = auto_select_fires_once [where s = w_loaded and w = w9 and ws = "[]"
      and slot = w_cached and out = "Rejected net_down"
      and p = p_loaded and q = p1 and qs = "[]" and pslot = p_cached
      and det_out = "Rejected net_down" and e = net_down and hold_out = "Rejected net_down"]
  note refused = auto_select_fires_once [where p = p_loaded and q = p1 and qs = "[]"
      and pslot = Absent and det_out = "Resolved (Failure (Some server_error))"
      and fe = "Some server_error" and hold_out = "Rejected net_down"]
  note holdings_refused = auto_select_fires_once [where p = p_loaded and q = p1 and qs = "[]"
      and pslot = Absent and det_out = "Resolved (Success (Some p1))" and q' = p1
      and hold_out = "Resolved (Failure (Some server_error))" and hfe = "Some server_error"]
  have w_fire:
    "autoSelectWatchlist w_loaded Absent (Resolved (Success (Combined w9 (Some [c1])))) =
       selectWatchlist Absent (wl_id w9) (Resolved (Success (Combined w9 (Some [c1]))))"
    using item [THEN conjunct1] hyps by simp
  have w_kept:
    "watchlists (wl_after (selectWatchlist Absent (wl_id w9)
       (Resolved (Success (Combined w9 (Some [c1]))))) w_loaded Absent) = [w9]"
    using item [THEN conjunct2, THEN conjunct1] hyps by simp
  have w_quiet:
    "autoSelectWatchlist w_selected Absent (Resolved (Success (Combined w9 (Some [c1])))) = []"
    using item [THEN conjunct2, THEN conjunct2, THEN conjunct1] hyps by simp
  have w_item:
    "currentWatchlist (wl_after (autoSelectWatchlist w_loaded Absent
       (Resolved (Success (Combined w9 (Some [c1]))))) w_loaded Absent) = Some w9 \<and>
     autoSelectWatchlist (wl_after (autoSelectWatchlist w_loaded Absent
       (Resolved (Success (Combined w9 (Some [c1]))))) w_loaded Absent) Absent
       (Rejected net_down) = []"
    using item [THEN conjunct2, THEN conjunct2, THEN conjunct2, THEN conjunct1] hyps by simp
  have w_bare:
    "wl_after (autoSelectWatchlist w_loaded Absent
       (Resolved (Success (BareWatchlist w9 None)))) w_loaded Absent =
     w_loaded\<lparr>currentWatchlist := Some w9, items := [], loading := False, error := None\<rparr>"
    using bare [THEN conjunct2, THEN conjunct2, THEN conjunct2, THEN conjunct2, THEN conjunct1] hyps by simp
  have w_down:
    "wl_after (autoSelectWatchlist w_loaded w_cached (Rejected net_down)) w_loaded w_cached =
     w_loaded\<lparr>currentWatchlist := Some w9, items := [c1], loading := False,
       error := Some (ErrText ''Failed to fetch'')\<rparr>"
    using down [THEN conjunct2, THEN conjunct2, THEN conjunct2, THEN conjunct2, THEN conjunct2, THEN conjunct1] hyps by (simp add: vals)
  have p_fire:
    "autoSelectPortfolio p_loaded Absent (Resolved (Success (Some p1))) (Rejected net_down) =
       selectPortfolio Absent (pf_id p1) (Resolved (Success (Some p1))) (Rejected net_down)"
    using item [THEN conjunct2, THEN conjunct2, THEN conjunct2, THEN conjunct2, THEN conjunct2, THEN conjunct2, THEN conjunct1] hyps by simp
  have p_kept:
    "portfolios (pf_after (selectPortfolio Absent (pf_id p1) (Resolved (Success (Some p1)))
       (Rejected net_down)) p_loaded Absent) = [p1]"
    using item [THEN conjunct2, THEN conjunct2, THEN conjunct2, THEN conjunct2, THEN conjunct2, THEN conjunct2, THEN conjunct2, THEN conjunct1] hyps by simp
  have p_quiet:
    "autoSelectPortfolio p_selected Absent (Resolved (Success (Some p1))) (Rejected net_down) = []"
    using item [THEN conjunct2, THEN conjunct2, THEN conjunct2, THEN conjunct2, THEN conjunct2, THEN conjunct2, THEN conjunct2, THEN conjunct2, THEN conjunct1] hyps by simp
  have p_item:
    "autoSelectPortfolio (pf_after (autoSelectPortfolio p_loaded Absent
       (Resolved (Success (Some p1))) (Rejected net_down)) p_loaded Absent)
       Absent (Rejected net_down) (Rejected net_down) = []"
    using item [THEN conjunct2, THEN conjunct2, THEN conjunct2, THEN conjunct2, THEN conjunct2, THEN conjunct2, THEN conjunct2, THEN conjunct2, THEN conjunct2, THEN conjunct1] hyps by simp
  have p_hold:
    "pf_after (autoSelectPortfolio p_loaded Absent (Resolved (Success (Some p1)))
       (Resolved (Success (Bare [])))) p_loaded Absent =
     p_loaded\<lparr>currentPortfolio := Some p1, holdings := [], pf_loading := False,
       pf_error := None\<rparr>"
    using bare [THEN conjunct2, THEN conjunct2, THEN conjunct2, THEN conjunct2, THEN conjunct2, THEN conjunct2, THEN conjunct2, THEN conjunct2, THEN conjunct2, THEN conjunct2, THEN conjunct1] hyps by simp
  have p_hold_refused:
    "pf_after (autoSelectPortfolio p_loaded Absent (Resolved (Success (Some p1)))
       (Resolved (Failure (Some server_error)))) p_loaded Absent =
     p_loaded\<lparr>currentPortfolio := Some p1, pf_loading := False,
       pf_error := Some (ErrObject server_error)\<rparr>"
    using holdings_refused [THEN conjunct2, THEN conjunct2, THEN conjunct2, THEN conjunct2, THEN conjunct2, THEN conjunct2, THEN conjunct2, THEN conjunct2, THEN conjunct2, THEN conjunct2, THEN conjunct2, THEN conjunct1] hyps by simp
  have p_hold_down:
    "pf_after (autoSelectPortfolio p_loaded Absent (Resolved (Success (Some p1)))
       (Rejected net_down)) p_loaded Absent =
     p_loaded\<lparr>currentPortfolio := Some p1, pf_loading := False,
       pf_error := Some (ErrText ''Failed to fetch'')\<rparr>"
    using item [THEN conjunct2, THEN conjunct2, THEN conjunct2, THEN conjunct2, THEN conjunct2, THEN conjunct2, THEN conjunct2, THEN conjunct2, THEN conjunct2, THEN conjunct2, THEN conjunct2, THEN conjunct2, THEN conjunct1] hyps by (simp add: vals)
  have p_refused:
    "pf_after (autoSelectPortfolio p_loaded Absent
       (Resolved (Failure (Some server_error))) (Rejected net_down)) p_loaded Absent =
     p_loaded\<lparr>pf_loading := False, pf_error := Some (ErrObject server_error)\<rparr>"
    using refused [THEN conjunct2, THEN conjunct2, THEN conjunct2, THEN conjunct2, THEN conjunct2, THEN conjunct2, THEN conjunct2, THEN conjunct2, THEN conjunct2, THEN conjunct2, THEN conjunct2, THEN conjunct2, THEN conjunct2, THEN conjunct1] hyps by (simp add: vals)
  have p_down:
    "pf_after (autoSelectPortfolio p_loaded p_cached (Rejected net_down) (Rejected net_down))
       p_loaded p_cached =
     p_loaded\<lparr>currentPortfolio := Some p1, holdings := [], transactions := [t1],
       pf_loading := False, pf_error := None\<rparr>"
    using down [THEN conjunct2, THEN conjunct2, THEN conjunct2, THEN conjunct2, THEN conjunct2, THEN conjunct2, THEN conjunct2, THEN conjunct2, THEN conjunct2, THEN conjunct2, THEN conjunct2, THEN conjunct2, THEN conjunct2, THEN conjunct2] hyps by (simp add: vals)
  show ?thesis
    by (intro conjI;
        (rule w_fire | rule p_fire | rule p_item | rule w_item [THEN conjunct2] |
         simp add: hyps w_kept w_quiet w_item w_bare w_down p_kept p_quiet
           p_item p_hold p_hold_refused p_hold_down p_refused p_down))
qed

text \<open>Claim C2 as stated fails: with the remote down and the first item of the
  collection unknown to the snapshot and the defaults, the selection is still null
  after the effect has run, not \<open>collection[0]\<close>.\<close>

theorem auto_select_remote_down_counterexample:
  "currentWatchlist w_loaded = None \<and> watchlists w_loaded = [w9] \<and>
   currentWatchlist (wl_after (autoSelectWatchlist w_loaded Absent (Rejected net_down))
      w_loaded Absent) \<noteq> Some w9"
  by (simp add: w_loaded_def initial_wstate_def autoSelectWatchlist_def wl_after_def
        selectWatchlist_def selectWatchlist_try_def selectWatchlist_catch_def
        parse_events_def cached_selection_def safeParseMockData_def mockWatchlists_def
        w9_def run_simps)

section \<open>Adding a child when the remote fails\<close>

lemma addStock_failed:
  "currentWatchlist s = Some cw \<Longrightarrow> failed add_out \<Longrightarrow>
     addStock s slot symbol notes now stamp add_out sel_out =
       ([SetLoading True, Remote (AddStock (wl_id cw) symbol notes),
         SetItems (items s @ [local_item cw symbol notes now stamp]), SetLoading False],
        Success (local_item cw symbol notes now stamp))"
  by (simp add: addStock_def failed_def split: outcome.splits response.splits)

text \<open>
  Claim C3, as amended: when the remote request of \<^verbatim>\<open>addStock\<close> fails with a watchlist
  selected, the watchlist manager fabricates a record with the id \<^verbatim>\<open>item_<Date.now()>\<close>,
  the uppercased symbol, the name \<^verbatim>\<open><SYMBOL> Inc.\<close>, price 100 and changes 0, appends
  exactly that record to \<^verbatim>\<open>items\<close>, leaves \<^verbatim>\<open>error\<close> and every other field but
  \<^verbatim>\<open>loading\<close> as they were, and returns \<^verbatim>\<open>{success: true, data: record}\<close>. The portfolio
  manager does not degrade: when \<^verbatim>\<open>addTransaction\<close> is answered \<^verbatim>\<open>success: false\<close> it
  stores the error in \<^verbatim>\<open>error\<close>, changes no list and returns the failed response.
\<close>

theorem add_child_degrades_locally:
  "(currentWatchlist s = Some cw \<and> failed add_out \<longrightarrow>
      wl_after (fst (addStock s slot symbol memo now stamp add_out sel_out)) s slot =
        s\<lparr>items := items s @
             [\<lparr>it_id = ''item_'' @ show_nat now, it_watchlistId = wl_id cw,
               it_symbol = toUpperCase symbol, it_name = toUpperCase symbol @ '' Inc.'',
               it_price = 100, it_change = 0, it_changePercent = 0,
               it_notes = memo, it_addedAt = stamp\<rparr>],
           loading := False\<rparr> \<and>
      snd (addStock s slot symbol memo now stamp add_out sel_out) =
        Success \<lparr>it_id = ''item_'' @ show_nat now, it_watchlistId = wl_id cw,
               it_symbol = toUpperCase symbol, it_name = toUpperCase symbol @ '' Inc.'',
               it_price = 100, it_change = 0, it_changePercent = 0,
               it_notes = memo, it_addedAt = stamp\<rparr>) \<and>
   (currentPortfolio p = Some cp \<and> tx_add = Resolved (Failure fe) \<longrightarrow>
      pf_after (fst (addTransaction p pslot tx_data tx_add det_out hold_out tx_out)) p pslot =
        p\<lparr>pf_loading := False, pf_error := map_option ErrObject fe\<rparr> \<and>
      snd (addTransaction p pslot tx_data tx_add det_out hold_out tx_out) =
        Returns (Failure fe))"
proof (intro conjI impI)
  assume a: "currentWatchlist s = Some cw \<and> failed add_out"
  then have run: "addStock s slot symbol memo now stamp add_out sel_out =
       ([SetLoading True, Remote (AddStock (wl_id cw) symbol memo),
         SetItems (items s @ [local_item cw symbol memo now stamp]), SetLoading False],
        Success (local_item cw symbol memo now stamp))"
    by (simp add: addStock_failed)
  show "wl_after (fst (addStock s slot symbol memo now stamp add_out sel_out)) s slot =
        s\<lparr>items := items s @
             [\<lparr>it_id = ''item_'' @ show_nat now, it_watchlistId = wl_id cw,
               it_symbol = toUpperCase symbol, it_name = toUpperCase symbol @ '' Inc.'',
               it_price = 100, it_change = 0, it_changePercent = 0,
               it_notes = memo, it_addedAt = stamp\<rparr>],
           loading := False\<rparr>"
    by (simp add: run wl_after_def run_simps local_item_def)
  show "snd (addStock s slot symbol memo now stamp add_out sel_out) =
        Success \<lparr>it_id = ''item_'' @ show_nat now, it_watchlistId = wl_id cw,
               it_symbol = toUpperCase symbol, it_name = toUpperCase symbol @ '' Inc.'',
               it_price = 100, it_change = 0, it_changePercent = 0,
               it_notes = memo, it_addedAt = stamp\<rparr>"
    by (simp add: run local_item_def)
next
  assume a: "currentPortfolio p = Some cp \<and> tx_add = Resolved (Failure fe)"
  then show "pf_after (fst (addTransaction p pslot tx_data tx_add det_out hold_out tx_out)) p pslot =
        p\<lparr>pf_loading := False, pf_error := map_option ErrObject fe\<rparr>"
    by (simp add: addTransaction_def pf_after_def run_simps)
  from a show "snd (addTransaction p pslot tx_data tx_add det_out hold_out tx_out) =
        Returns (Failure fe)"
    by (simp add: addTransaction_def)
qed

theorem add_child_degrades_locally_witness:
  "currentWatchlist w_selected = Some w9 \<and>
   failed (Resolved (Failure (Some server_error)) :: witem outcome) \<and>
   wl_after (fst (addStock w_selected Absent ''aapl'' ''test'' 1700000000000
       ''2023-11-14T22:13:20.000Z'' (Resolved (Failure (Some server_error)))
       (Rejected net_down))) w_selected Absent =
     w_selected\<lparr>items := [c1,
        \<lparr>it_id = ''item_1700000000000'', it_watchlistId = ''w9'',
         it_symbol = ''AAPL'', it_name = ''AAPL Inc.'',
         it_price = 100, it_change = 0, it_changePercent = 0,
         it_notes = ''test'', it_addedAt = ''2023-11-14T22:13:20.000Z''\<rparr>]\<rparr> \<and>
   currentPortfolio p_selected = Some p1 \<and>
   pf_after (fst (addTransaction p_selected Absent buy_aapl
       (Resolved (Failure (Some server_error)))
       (Rejected net_down) (Rejected net_down) (Rejected net_down))) p_selected Absent =
     p_selected\<lparr>pf_error := Some (ErrObject server_error)\<rparr>"
proof -
  have hyps:
    "currentWatchlist w_selected = Some w9"
    "failed (Resolved (Failure (Some server_error)) :: witem outcome)"
    "currentPortfolio p_selected = Some p1"
    by (simp_all add: w_selected_def p_selected_def initial_wstate_def initial_pstate_def
          failed_def)
  have vals:
    "show_nat 1700000000000 = ''1700000000000''" "toUpperCase ''aapl'' = ''AAPL''"
    "wl_id w9 = ''w9''" "items w_selected = [c1]" "loading w_selected = False"
    "pf_loading p_selected = False"
    by (simp_all add: show_nat.simps digit_def toUpperCase_def upper_char_def w9_def
          w_selected_def p_selected_def initial_wstate_def initial_pstate_def)
  show ?thesis
    using hyps vals add_child_degrades_locally [where s = w_selected and cw = w9
      and add_out = "Resolved (Failure (Some server_error))" and slot = Absent
      and symbol = "''aapl''" and memo = "''test''" and now = 1700000000000
      and stamp = "''2023-11-14T22:13:20.000Z''" and sel_out = "Rejected net_down"
      and p = p_selected and cp = p1 and tx_add = "Resolved (Failure (Some server_error))"
      and fe = "Some server_error" and pslot = Absent and tx_data = buy_aapl
      and det_out = "Rejected net_down" and hold_out = "Rejected net_down"
      and tx_out = "Rejected net_down"]
    by (auto simp: w_selected_def p_selected_def)
qed

text \<open>Claim C3 as stated fails for the portfolio manager's add-child operation: a
  failed \<^verbatim>\<open>addTransaction\<close> appends nothing and sets \<^verbatim>\<open>error\<close>.\<close>

theorem add_transaction_failure_counterexample:
  "currentPortfolio p_selected = Some p1 \<and>
   transactions (pf_after (fst (addTransaction p_selected Absent buy_aapl
       (Resolved (Failure (Some server_error)))
       (Rejected net_down) (Rejected net_down) (Rejected net_down))) p_selected Absent) =
     transactions p_selected \<and>
   pf_error (pf_after (fst (addTransaction p_selected Absent buy_aapl
       (Resolved (Failure (Some server_error)))
       (Rejected net_down) (Rejected net_down) (Rejected net_down))) p_selected Absent) \<noteq> None"
  by (simp add: addTransaction_def pf_after_def run_simps p_selected_def initial_pstate_def)

section \<open>Deleting a watchlist\<close>

lemma fetchWatchlists_null_body:
  "list_of_data d = Inl e \<Longrightarrow>
     fetchWatchlists slot (Resolved (Success d)) = fetchWatchlists slot (Rejected e)"
  by (simp add: fetchWatchlists_def fetchWatchlists_try_def)

lemma fetchWatchlists_run_shape:
  "\<exists>ws e sl. \<forall>s. run_wl (fetchWatchlists slot out) (s, slot) =
      (s\<lparr>watchlists := ws, loading := False, error := e\<rparr>, sl)"
proof (cases "failed out")
  case True
  then show ?thesis
    using fetchWatchlists_failed_run [of out slot] by blast
next
  case False
  then obtain d where out: "out = Resolved (Success d)"
    by (auto simp: failed_def split: outcome.splits response.splits)
  show ?thesis
  proof (cases "list_of_data d")
    case (Inl e)
    have "failed (Rejected e :: watchlist list_data outcome)" by (simp add: failed_def)
    from fetchWatchlists_failed_run [OF this, of slot] show ?thesis
      unfolding out fetchWatchlists_null_body [OF Inl] by blast
  next
    case (Inr ws)
    from fetchWatchlists_success_run [OF this, of slot _ slot] show ?thesis
      unfolding out by blast
  qed
qed

lemma deleteWatchlist_success_events:
  "fst (deleteWatchlist s slot i (Resolved (Success d)) fetch_out) =
     [SetLoading True, Remote (Delete i)] @ fetchWatchlists slot fetch_out @
     (if current_is s i then [SetCurrentWatchlist None, SetItems []] else []) @
     [SetLoading False]"
  by (simp add: deleteWatchlist_def)

lemma deleteWatchlist_success_run:
  assumes "\<forall>s. run_wl (fetchWatchlists slot fetch_out) (s, slot) =
      (s\<lparr>watchlists := ws, loading := False, error := e\<rparr>, sl)"
  shows "wl_after (fst (deleteWatchlist s slot i (Resolved (Success d)) fetch_out)) s slot =
     (if map_option wl_id (currentWatchlist s) = Some i
      then s\<lparr>watchlists := ws, error := e, currentWatchlist := None, items := [],
             loading := False\<rparr>
      else s\<lparr>watchlists := ws, error := e, loading := False\<rparr>)"
proof (cases "current_is s i")
  case True
  then show ?thesis
    by (auto simp: deleteWatchlist_success_events wl_after_def run_simps assms
          current_is_def split: option.splits)
next
  case False
  then show ?thesis
    by (auto simp: deleteWatchlist_success_events wl_after_def run_simps assms
          current_is_def split: option.splits)
qed

text \<open>
  Claim C4, as amended: when the remote delete succeeds, \<^verbatim>\<open>deleteWatchlist(id)\<close> re-fetches
  the collection and then, if \<open>id\<close> is the id of the current watchlist, sets the selection to
  null and empties its items; otherwise it leaves selection and items unchanged. The
  collection afterwards is the result of the re-fetch: the list the remote returned when
  the re-fetch succeeded (so the deleted id is absent exactly when the remote no longer
  lists it), and the snapshot's list or else the default list when the re-fetch failed.
\<close>

theorem delete_clears_selection:
  "(del_out = Resolved (Success d) \<longrightarrow>
      currentWatchlist (wl_after (fst (deleteWatchlist s slot i del_out fetch_out)) s slot) =
        (if map_option wl_id (currentWatchlist s) = Some i then None else currentWatchlist s) \<and>
      items (wl_after (fst (deleteWatchlist s slot i del_out fetch_out)) s slot) =
        (if map_option wl_id (currentWatchlist s) = Some i then [] else items s) \<and>
      snd (deleteWatchlist s slot i del_out fetch_out) = Success d) \<and>
   (del_out = Resolved (Success d) \<and> fetch_out = Resolved (Success fd) \<and>
    list_of_data fd = Inr ws \<longrightarrow>
      watchlists (wl_after (fst (deleteWatchlist s slot i del_out fetch_out)) s slot) = ws) \<and>
   (del_out = Resolved (Success d) \<and> failed fetch_out \<longrightarrow>
      watchlists (wl_after (fst (deleteWatchlist s slot i del_out fetch_out)) s slot) =
        (case slot of
           Stored sn \<Rightarrow> (case snap_watchlists sn of Some cs \<Rightarrow> cs | None \<Rightarrow> mockWatchlists)
         | _ \<Rightarrow> mockWatchlists))"
proof (intro conjI impI)
  assume ok: "del_out = Resolved (Success d)"
  obtain ws' e sl where shape: "\<forall>s. run_wl (fetchWatchlists slot fetch_out) (s, slot) =
      (s\<lparr>watchlists := ws', loading := False, error := e\<rparr>, sl)"
    using fetchWatchlists_run_shape by blast
  show "currentWatchlist (wl_after (fst (deleteWatchlist s slot i del_out fetch_out)) s slot) =
        (if map_option wl_id (currentWatchlist s) = Some i then None else currentWatchlist s)"
    by (auto simp: ok deleteWatchlist_success_run [OF shape])
  show "items (wl_after (fst (deleteWatchlist s slot i del_out fetch_out)) s slot) =
        (if map_option wl_id (currentWatchlist s) = Some i then [] else items s)"
    by (auto simp: ok deleteWatchlist_success_run [OF shape])
  show "snd (deleteWatchlist s slot i del_out fetch_out) = Success d"
    by (simp add: ok deleteWatchlist_def)
next
  assume "del_out = Resolved (Success d) \<and> fetch_out = Resolved (Success fd) \<and>
    list_of_data fd = Inr ws"
  then have d: "del_out = Resolved (Success d)" and f: "fetch_out = Resolved (Success fd)"
    and l: "list_of_data fd = Inr ws" by simp_all
  have shape: "\<forall>s. run_wl (fetchWatchlists slot (Resolved (Success fd))) (s, slot) =
      (s\<lparr>watchlists := ws, loading := False, error := None\<rparr>, slot)"
    by (simp add: fetchWatchlists_success_run [OF l])
  show "watchlists (wl_after (fst (deleteWatchlist s slot i del_out fetch_out)) s slot) = ws"
    unfolding d f by (auto simp: deleteWatchlist_success_run [OF shape])
next
  assume "del_out = Resolved (Success d) \<and> failed fetch_out"
  then have d: "del_out = Resolved (Success d)" and f: "failed fetch_out" by simp_all
  have shape: "\<forall>s. run_wl (fetchWatchlists slot fetch_out) (s, slot) =
      (s\<lparr>watchlists := cached_watchlists slot, loading := False,
         error := Some (ErrText (failure_text fetch_out ''Failed to fetch watchlists''))\<rparr>,
       snd (safeParseMockData slot))"
    by (simp add: fetchWatchlists_failed_run [OF f])
  show "watchlists (wl_after (fst (deleteWatchlist s slot i del_out fetch_out)) s slot) =
        (case slot of
           Stored sn \<Rightarrow> (case snap_watchlists sn of Some cs \<Rightarrow> cs | None \<Rightarrow> mockWatchlists)
         | _ \<Rightarrow> mockWatchlists)"
    unfolding d
    by (auto simp: deleteWatchlist_success_run [OF shape] cached_watchlists_def
          safeParseMockData_def split: slot.splits)
qed

theorem delete_clears_selection_witness:
  "currentWatchlist (wl_after (fst (deleteWatchlist w_selected Absent ''w9''
       (Resolved (Success ())) (Resolved (Success (Bare []))))) w_selected Absent) = None \<and>
   items (wl_after (fst (deleteWatchlist w_selected Absent ''w9''
       (Resolved (Success ())) (Resolved (Success (Bare []))))) w_selected Absent) = [] \<and>
   watchlists (wl_after (fst (deleteWatchlist w_selected Absent ''w9''
       (Resolved (Success ())) (Resolved (Success (Bare []))))) w_selected Absent) = [] \<and>
   currentWatchlist (wl_after (fst (deleteWatchlist w_selected w_cached ''watchlist-2''
       (Resolved (Success ())) (Rejected net_down))) w_selected w_cached) = Some w9 \<and>
   items (wl_after (fst (deleteWatchlist w_selected w_cached ''watchlist-2''
       (Resolved (Success ())) (Rejected net_down))) w_selected w_cached) = [c1] \<and>
   watchlists (wl_after (fst (deleteWatchlist w_selected w_cached ''watchlist-2''
       (Resolved (Success ())) (Rejected net_down))) w_selected w_cached) = [w9]"
proof -
  have vals:
    "map_option wl_id (currentWatchlist w_selected) = Some ''w9''"
    "currentWatchlist w_selected = Some w9" "items w_selected = [c1]"
    "list_of_data (Bare ([] :: watchlist list)) = Inr []"
    "failed (Rejected net_down :: watchlist list_data outcome)"
    by (simp_all add: w_selected_def initial_wstate_def w9_def list_of_data_def failed_def)
  show ?thesis
    using vals
      delete_clears_selection [where del_out = "Resolved (Success ())" and d = "()"
        and s = w_selected and slot = Absent and i = "''w9''"
        and fetch_out = "Resolved (Success (Bare []))" and fd = "Bare []" and ws = "[]"]
      delete_clears_selection [where del_out = "Resolved (Success ())" and d = "()"
        and s = w_selected and slot = w_cached and i = "''watchlist-2''"
        and fetch_out = "Rejected net_down"]
    by (auto simp: w_cached_def)
qed

text \<open>Claim C4 as stated fails in its parenthesis: when the re-fetch after a successful
  delete of the current watchlist fails, the collection is taken from the snapshot, which
  still lists the deleted id.\<close>

theorem delete_refetch_from_cache_counterexample:
  "map_option wl_id (currentWatchlist w_selected) = Some ''w9'' \<and>
   list_ex (\<lambda>w. wl_id w = ''w9'')
     (watchlists (wl_after (fst (deleteWatchlist w_selected w_cached ''w9''
        (Resolved (Success ())) (Rejected net_down))) w_selected w_cached))"
  by (simp add: deleteWatchlist_success_run [OF fetchWatchlists_failed_run [THEN allI]]
        failed_def cached_watchlists_def safeParseMockData_def w_cached_def w_selected_def
        initial_wstate_def w9_def)

section \<open>Removing a child twice\<close>

lemma removeStock_success_run:
  "currentWatchlist s = Some cw \<Longrightarrow>
     wl_after (fst (removeStock s c (Resolved (Success d)))) s slot =
       s\<lparr>items := filter (\<lambda>item. it_id item \<noteq> c) (items s), loading := False\<rparr>"
  by (simp add: removeStock_def wl_after_def run_simps)

lemma removeStock_failure_run:
  "currentWatchlist s = Some cw \<Longrightarrow>
     wl_after (fst (removeStock s c (Resolved (Failure fe)))) s slot =
       s\<lparr>error := map_option ErrObject fe, loading := False\<rparr>"
  by (simp add: removeStock_def wl_after_def run_simps)

lemma removeStock_rejected_run:
  "currentWatchlist s = Some cw \<Longrightarrow>
     wl_after (fst (removeStock s c (Rejected e))) s slot = s\<lparr>loading := True\<rparr>"
  by (simp add: removeStock_def wl_after_def run_simps)

lemma removeStock_issues_request:
  "currentWatchlist s = Some cw \<Longrightarrow>
     Remote (RemoveStock (wl_id cw) c) \<in> set (fst (removeStock s c out)) \<and>
     list_ex is_remote (fst (removeStock s c out))"
  by (cases out) (simp_all add: removeStock_def is_remote_def)

lemma removeStock_returns:
  "currentWatchlist s = Some cw \<Longrightarrow> snd (removeStock s c (Resolved r)) = Returns r"
  by (simp add: removeStock_def)

lemma removeStock_twice_first:
  "currentWatchlist s = Some cw \<Longrightarrow>
     fst (removeStock_twice s slot c (Resolved (Success da)) ob) =
       s\<lparr>items := filter (\<lambda>item. it_id item \<noteq> c) (items s), loading := False\<rparr>"
  by (simp add: removeStock_twice_def Let_def removeStock_success_run)

text \<open>
  Claim C6, as amended: after a first \<^verbatim>\<open>removeStock(id)\<close> that succeeded remotely has
  filtered the child out of \<^verbatim>\<open>items\<close>, a second \<^verbatim>\<open>removeStock(id)\<close> issues the remote
  request for that watchlist and child again and removes nothing further, however that
  request ends. When the remote answers the second request with success, the state is
  exactly the state the first call left and the response is returned; when it answers
  \<^verbatim>\<open>success: false\<close> (the item is gone), the state is that state with \<^verbatim>\<open>error\<close> set to the
  error of the response, which is returned.
\<close>

theorem remove_child_twice:
  "(currentWatchlist s = Some cw \<and> out_a = Resolved (Success da) \<longrightarrow>
      items (fst (removeStock_twice s slot c out_a out_b)) =
        filter (\<lambda>item. it_id item \<noteq> c) (items s) \<and>
      items (snd (removeStock_twice s slot c out_a out_b)) =
        items (fst (removeStock_twice s slot c out_a out_b)) \<and>
      list_ex is_remote
        (fst (removeStock (fst (removeStock_twice s slot c out_a out_b)) c out_b)) \<and>
      Remote (RemoveStock (wl_id cw) c) \<in>
        set (fst (removeStock (fst (removeStock_twice s slot c out_a out_b)) c out_b))) \<and>
   (currentWatchlist s = Some cw \<and> out_a = Resolved (Success da) \<and>
    out_b = Resolved (Success db) \<longrightarrow>
      snd (removeStock_twice s slot c out_a out_b) = fst (removeStock_twice s slot c out_a out_b) \<and>
      snd (removeStock (fst (removeStock_twice s slot c out_a out_b)) c out_b) =
        Returns (Success db)) \<and>
   (currentWatchlist s = Some cw \<and> out_a = Resolved (Success da) \<and>
    out_b = Resolved (Failure fe) \<longrightarrow>
      error (snd (removeStock_twice s slot c out_a out_b)) = map_option ErrObject fe \<and>
      snd (removeStock_twice s slot c out_a out_b) =
        (fst (removeStock_twice s slot c out_a out_b))\<lparr>error := map_option ErrObject fe\<rparr> \<and>
      snd (removeStock (fst (removeStock_twice s slot c out_a out_b)) c out_b) =
        Returns (Failure fe))"
proof (intro conjI impI)
  assume "currentWatchlist s = Some cw \<and> out_a = Resolved (Success da)"
  then have cur: "currentWatchlist s = Some cw" and oa: "out_a = Resolved (Success da)"
    by simp_all
  let ?left = "s\<lparr>items := filter (\<lambda>item. it_id item \<noteq> c) (items s), loading := False\<rparr>"
  have first: "fst (removeStock_twice s slot c out_a ob) = ?left" for ob
    by (simp add: removeStock_twice_def Let_def oa removeStock_success_run [OF cur])
  have still: "currentWatchlist ?left = Some cw"
    by (simp add: cur)
  have second: "snd (removeStock_twice s slot c out_a ob) =
      wl_after (fst (removeStock ?left c ob)) ?left slot" for ob
    by (simp add: removeStock_twice_def Let_def oa removeStock_success_run [OF cur])
  show "items (fst (removeStock_twice s slot c out_a out_b)) =
        filter (\<lambda>item. it_id item \<noteq> c) (items s)"
    by (simp add: first)
  show "items (snd (removeStock_twice s slot c out_a out_b)) =
        items (fst (removeStock_twice s slot c out_a out_b))"
  proof (cases out_b)
    case (Rejected e)
    then show ?thesis
      by (simp add: first second removeStock_rejected_run [OF still])
  next
    case (Resolved rb)
    then show ?thesis
      by (cases rb)
         (simp_all add: first second removeStock_success_run [OF still]
            removeStock_failure_run [OF still])
  qed
  show "list_ex is_remote
        (fst (removeStock (fst (removeStock_twice s slot c out_a out_b)) c out_b))"
    unfolding first by (simp add: removeStock_issues_request [OF still])
  show "Remote (RemoveStock (wl_id cw) c) \<in>
        set (fst (removeStock (fst (removeStock_twice s slot c out_a out_b)) c out_b))"
    unfolding first by (simp add: removeStock_issues_request [OF still])
next
  assume "currentWatchlist s = Some cw \<and> out_a = Resolved (Success da) \<and>
    out_b = Resolved (Success db)"
  then have cur: "currentWatchlist s = Some cw" and oa: "out_a = Resolved (Success da)"
    and ob: "out_b = Resolved (Success db)" by simp_all
  have still: "currentWatchlist
      (s\<lparr>items := filter (\<lambda>item. it_id item \<noteq> c) (items s), loading := False\<rparr>) = Some cw"
    by (simp add: cur)
  show "snd (removeStock_twice s slot c out_a out_b) =
      fst (removeStock_twice s slot c out_a out_b)"
    by (simp add: oa ob removeStock_twice_def Let_def removeStock_success_run [OF cur]
          removeStock_success_run [OF still])
  show "snd (removeStock (fst (removeStock_twice s slot c out_a out_b)) c out_b) =
        Returns (Success db)"
    unfolding oa ob removeStock_twice_first [OF cur]
    by (rule removeStock_returns [OF still])
next
  assume "currentWatchlist s = Some cw \<and> out_a = Resolved (Success da) \<and>
    out_b = Resolved (Failure fe)"
  then have cur: "currentWatchlist s = Some cw" and oa: "out_a = Resolved (Success da)"
    and ob: "out_b = Resolved (Failure fe)" by simp_all
  have still: "currentWatchlist
      (s\<lparr>items := filter (\<lambda>item. it_id item \<noteq> c) (items s), loading := False\<rparr>) = Some cw"
    by (simp add: cur)
  show "error (snd (removeStock_twice s slot c out_a out_b)) = map_option ErrObject fe"
    by (simp add: oa ob removeStock_twice_def Let_def removeStock_success_run [OF cur]
          removeStock_failure_run [OF still])
  show "snd (removeStock_twice s slot c out_a out_b) =
        (fst (removeStock_twice s slot c out_a out_b))\<lparr>error := map_option ErrObject fe\<rparr>"
    by (simp add: oa ob removeStock_twice_def Let_def removeStock_success_run [OF cur]
          removeStock_failure_run [OF still])
  show "snd (removeStock (fst (removeStock_twice s slot c out_a out_b)) c out_b) =
        Returns (Failure fe)"
    unfolding oa ob removeStock_twice_first [OF cur]
    by (rule removeStock_returns [OF still])
qed

theorem remove_child_twice_witness:
  "currentWatchlist w_selected = Some w9 \<and>
   items (fst (removeStock_twice w_selected Absent ''c1''
      (Resolved (Success ())) (Resolved (Success ())))) = [] \<and>
   list_ex is_remote (fst (removeStock (fst (removeStock_twice w_selected Absent ''c1''
      (Resolved (Success ())) (Resolved (Success ())))) ''c1'' (Resolved (Success ())))) \<and>
   snd (removeStock_twice w_selected Absent ''c1''
      (Resolved (Success ())) (Resolved (Success ()))) =
     fst (removeStock_twice w_selected Absent ''c1''
      (Resolved (Success ())) (Resolved (Success ()))) \<and>
   snd (removeStock (fst (removeStock_twice w_selected Absent ''c1''
      (Resolved (Success ())) (Resolved (Success ())))) ''c1'' (Resolved (Success ()))) =
     Returns (Success ()) \<and>
   items (snd (removeStock_twice w_selected Absent ''c1''
      (Resolved (Success ())) (Resolved (Failure (Some not_found))))) = [] \<and>
   error (snd (removeStock_twice w_selected Absent ''c1''
      (Resolved (Success ())) (Resolved (Failure (Some not_found))))) =
     Some (ErrObject not_found) \<and>
   items (snd (removeStock_twice w_selected Absent ''c1''
      (Resolved (Success ())) (Rejected net_down))) = [] \<and>
   list_ex is_remote (fst (removeStock (fst (removeStock_twice w_selected Absent ''c1''
      (Resolved (Success ())) (Rejected net_down))) ''c1''
      (Rejected net_down :: unit outcome)))"
proof -
  have vals: "currentWatchlist w_selected = Some w9"
    "filter (\<lambda>item. it_id item \<noteq> ''c1'') (items w_selected) = []"
    by (simp_all add: w_selected_def initial_wstate_def c1_def)
  note again = remove_child_twice [where s = w_selected and cw = w9 and slot = Absent
        and c = "''c1''" and out_a = "Resolved (Success ())" and da = "()"
        and out_b = "Resolved (Success ())" and db = "()"]
  note gone = remove_child_twice [where s = w_selected and cw = w9 and slot = Absent
        and c = "''c1''" and out_a = "Resolved (Success ())" and da = "()"
        and out_b = "Resolved (Failure (Some not_found))" and fe = "Some not_found"]
  note down = remove_child_twice [where s = w_selected and cw = w9 and slot = Absent
        and c = "''c1''" and out_a = "Resolved (Success ())" and da = "()"
        and out_b = "Rejected net_down"]
  have "items (fst (removeStock_twice w_selected Absent ''c1''
      (Resolved (Success ())) (Resolved (Success ())))) = []"
    "list_ex is_remote (fst (removeStock (fst (removeStock_twice w_selected Absent ''c1''
      (Resolved (Success ())) (Resolved (Success ())))) ''c1'' (Resolved (Success ()))))"
    using again [THEN conjunct1] vals by simp_all
  moreover have "snd (removeStock_twice w_selected Absent ''c1''
      (Resolved (Success ())) (Resolved (Success ()))) =
     fst (removeStock_twice w_selected Absent ''c1''
      (Resolved (Success ())) (Resolved (Success ())))"
    "snd (removeStock (fst (removeStock_twice w_selected Absent ''c1''
      (Resolved (Success ())) (Resolved (Success ())))) ''c1'' (Resolved (Success ()))) =
     Returns (Success ())"
    using again [THEN conjunct2, THEN conjunct1] vals by simp_all
  moreover have "items (snd (removeStock_twice w_selected Absent ''c1''
      (Resolved (Success ())) (Resolved (Failure (Some not_found))))) = []"
    using gone [THEN conjunct1] vals by simp
  moreover have "error (snd (removeStock_twice w_selected Absent ''c1''
      (Resolved (Success ())) (Resolved (Failure (Some not_found))))) =
     Some (ErrObject not_found)"
    using gone [THEN conjunct2, THEN conjunct2] vals by simp
  moreover have "items (snd (removeStock_twice w_selected Absent ''c1''
      (Resolved (Success ())) (Rejected net_down))) = []"
    "list_ex is_remote (fst (removeStock (fst (removeStock_twice w_selected Absent ''c1''
      (Resolved (Success ())) (Rejected net_down))) ''c1''
      (Rejected net_down :: unit outcome)))"
    using down [THEN conjunct1] vals by simp_all
  ultimately show ?thesis
    using vals(1) by (intro conjI)
qed

text \<open>Claim C6 as stated fails: starting from one item \<open>c1\<close>, when the remote answers
  the second removal with 404 the second call does produce an error.\<close>

theorem remove_child_twice_not_found_counterexample:
  "currentWatchlist w_selected = Some w9 \<and> items w_selected = [c1] \<and> it_id c1 = ''c1'' \<and>
   error (fst (removeStock_twice w_selected Absent ''c1''
      (Resolved (Success ())) (Resolved (Failure (Some not_found))))) = None \<and>
   error (snd (removeStock_twice w_selected Absent ''c1''
      (Resolved (Success ())) (Resolved (Failure (Some not_found))))) \<noteq> None"
  by (simp add: removeStock_twice_def Let_def removeStock_def wl_after_def run_simps
        w_selected_def initial_wstate_def c1_def)

section \<open>Child operations without a selection\<close>

text \<open>
  Claim C10: a child-level operation (\<^verbatim>\<open>addStock\<close>, \<^verbatim>\<open>removeStock\<close>,
  \<^verbatim>\<open>addTransaction\<close>) invoked while nothing is selected returns
  \<^verbatim>\<open>{success: false, error: {message}}\<close>, issues no remote call, and leaves the state
  (and the storage) unchanged.
\<close>

theorem child_operation_without_selection:
  "(currentWatchlist s = None \<longrightarrow>
      snd (addStock s slot symbol memo now stamp add_out sel_out) =
        Failure (Some \<lparr>se_message = ''No watchlist selected'', se_code = None\<rparr>) \<and>
      \<not> list_ex is_remote (fst (addStock s slot symbol memo now stamp add_out sel_out)) \<and>
      run_wl (fst (addStock s slot symbol memo now stamp add_out sel_out)) (s, slot) = (s, slot) \<and>
      snd (removeStock s c rm_out) =
        Returns (Failure (Some \<lparr>se_message = ''No watchlist selected'', se_code = None\<rparr>)) \<and>
      \<not> list_ex is_remote (fst (removeStock s c rm_out)) \<and>
      run_wl (fst (removeStock s c rm_out)) (s, slot) = (s, slot)) \<and>
   (currentPortfolio p = None \<longrightarrow>
      snd (addTransaction p pslot tx_data tx_add det_out hold_out tx_out) =
        Returns (Failure (Some \<lparr>se_message = ''No portfolio selected'', se_code = None\<rparr>)) \<and>
      \<not> list_ex pf_is_remote
          (fst (addTransaction p pslot tx_data tx_add det_out hold_out tx_out)) \<and>
      run_pf (fst (addTransaction p pslot tx_data tx_add det_out hold_out tx_out)) (p, pslot) =
        (p, pslot))"
  by (simp add: addStock_def removeStock_def addTransaction_def not_selected_def run_simps)

theorem child_operation_without_selection_witness:
  "currentWatchlist w_loaded = None \<and>
   snd (addStock w_loaded Absent ''AAPL'' ''test'' 1700000000000 ''2023-11-14T22:13:20.000Z''
          (Resolved (Failure (Some server_error))) (Rejected net_down)) =
     Failure (Some \<lparr>se_message = ''No watchlist selected'', se_code = None\<rparr>) \<and>
   run_wl (fst (addStock w_loaded Absent ''AAPL'' ''test'' 1700000000000
          ''2023-11-14T22:13:20.000Z''
          (Resolved (Failure (Some server_error))) (Rejected net_down))) (w_loaded, Absent) =
     (w_loaded, Absent) \<and>
   snd (removeStock w_loaded ''c1'' (Resolved (Success ()))) =
     Returns (Failure (Some \<lparr>se_message = ''No watchlist selected'', se_code = None\<rparr>)) \<and>
   run_wl (fst (removeStock w_loaded ''c1'' (Resolved (Success ())))) (w_loaded, Absent) =
     (w_loaded, Absent) \<and>
   currentPortfolio p_loaded = None \<and>
   snd (addTransaction p_loaded Absent buy_aapl (Resolved (Success t1))
          (Rejected net_down) (Rejected net_down) (Rejected net_down)) =
     Returns (Failure (Some \<lparr>se_message = ''No portfolio selected'', se_code = None\<rparr>)) \<and>
   run_pf (fst (addTransaction p_loaded Absent buy_aapl (Resolved (Success t1))
          (Rejected net_down) (Rejected net_down) (Rejected net_down))) (p_loaded, Absent) =
     (p_loaded, Absent)"
proof -
  have vals: "currentWatchlist w_loaded = None" "currentPortfolio p_loaded = None"
    by (simp_all add: w_loaded_def p_loaded_def initial_wstate_def initial_pstate_def)
  show ?thesis
    using vals
      child_operation_without_selection [where s = w_loaded and slot = Absent
        and symbol = "''AAPL''" and memo = "''test''" and now = 1700000000000
        and stamp = "''2023-11-14T22:13:20.000Z''"
        and add_out = "Resolved (Failure (Some server_error))" and sel_out = "Rejected net_down"
        and c = "''c1''" and rm_out = "Resolved (Success ())"
        and p = p_loaded and pslot = Absent and tx_data = buy_aapl
        and tx_add = "Resolved (Success t1)" and det_out = "Rejected net_down"
        and hold_out = "Rejected net_down" and tx_out = "Rejected net_down"]
    by auto
qed

section \<open>The loading flag\<close>

lemma wl_bracketed_append:
  "wl_bracketed xs \<Longrightarrow> wl_bracketed ys \<Longrightarrow> wl_bracketed (xs @ ys)"
  by (cases xs; cases ys) (simp_all add: wl_bracketed_def)

lemma wl_bracketed_loading:
  assumes "wl_bracketed evs"
  shows "loading (fst (run_wl evs w)) = False"
proof -
  from assms have ne: "evs \<noteq> []" and l: "sets_loading False (last evs)"
    by (auto simp: wl_bracketed_def split: list.splits)
  from l have "last evs = SetLoading False"
    by (cases "last evs") (simp_all add: sets_loading_def)
  with ne have "evs = butlast evs @ [SetLoading False]"
    by (metis append_butlast_last_id)
  then have "run_wl evs w = apply_wl (SetLoading False) (run_wl (butlast evs) w)"
    by (metis run_wl_append run_wl_Cons run_wl_Nil)
  then show ?thesis
    by (cases "run_wl (butlast evs) w") simp
qed

lemma pf_bracketed_loading:
  assumes "pf_bracketed evs"
  shows "pf_loading (fst (run_pf evs w)) = False"
proof -
  from assms have ne: "evs \<noteq> []" and l: "pf_sets_loading False (last evs)"
    by (auto simp: pf_bracketed_def split: list.splits)
  from l have "last evs = PSetLoading False"
    by (cases "last evs") (simp_all add: pf_sets_loading_def)
  with ne have "evs = butlast evs @ [PSetLoading False]"
    by (metis append_butlast_last_id)
  then have "run_pf evs w = apply_pf (PSetLoading False) (run_pf (butlast evs) w)"
    by (metis run_pf_append run_pf_Cons run_pf_Nil)
  then show ?thesis
    by (cases "run_pf (butlast evs) w") simp
qed

lemma fetchWatchlists_bracketed: "wl_bracketed (fetchWatchlists slot out)"
  by (simp add: wl_bracketed_def sets_loading_def fetchWatchlists_def)

lemma selectWatchlist_bracketed: "wl_bracketed (selectWatchlist slot i out)"
  by (simp add: wl_bracketed_def sets_loading_def selectWatchlist_def)

lemma createWatchlist_bracketed:
  "wl_bracketed (fst (createWatchlist s slot wdata create_out out sel_out))"
proof (cases create_out)
  case (Rejected e)
  then show ?thesis
    by (simp add: wl_bracketed_def sets_loading_def createWatchlist_def)
next
  case (Resolved r)
  show ?thesis
  proof (cases r)
    case (Failure e)
    with Resolved show ?thesis
      by (simp add: wl_bracketed_def sets_loading_def createWatchlist_def)
  next
    case (Success w)
    have own: "wl_bracketed ([SetLoading True, Remote (Create wdata)] @
        fetchWatchlists slot out @ [SetLoading False])"
      by (simp add: wl_bracketed_def sets_loading_def)
    from wl_bracketed_append [OF own selectWatchlist_bracketed] own Resolved Success
    show ?thesis
      by (simp add: createWatchlist_def Let_def)
  qed
qed

lemma updateWatchlist_bracketed:
  "wl_bracketed (fst (updateWatchlist s slot i wdata upd_out out))"
  by (simp add: wl_bracketed_def sets_loading_def updateWatchlist_def split: outcome.splits response.splits)

lemma deleteWatchlist_bracketed:
  "wl_bracketed (fst (deleteWatchlist s slot i del_out out))"
  by (simp add: wl_bracketed_def sets_loading_def deleteWatchlist_def split: outcome.splits response.splits)

lemma addStock_bracketed:
  "currentWatchlist s = Some cw \<Longrightarrow>
     wl_bracketed (fst (addStock s slot symbol memo now stamp add_out sel_out))"
  by (simp add: wl_bracketed_def sets_loading_def addStock_def split: outcome.splits response.splits)

lemma removeStock_bracketed:
  "currentWatchlist s = Some cw \<Longrightarrow> snd (removeStock s c rm_out) = Returns r \<Longrightarrow>
     wl_bracketed (fst (removeStock s c rm_out))"
  by (simp add: removeStock_def wl_bracketed_def sets_loading_def split: outcome.splits)

lemma fetchPortfolios_bracketed: "pf_bracketed (fetchPortfolios pslot pout)"
  by (simp add: pf_bracketed_def pf_sets_loading_def fetchPortfolios_def)

lemma selectPortfolio_bracketed: "pf_bracketed (selectPortfolio pslot j det_out hold_out)"
  by (simp add: pf_bracketed_def pf_sets_loading_def selectPortfolio_def selectPortfolio_start_def selectPortfolio_rest_def
      split: outcome.splits response.splits)

lemma selectPortfolio_rest_last:
  "selectPortfolio_rest pslot j det_out hold_out \<noteq> [] \<and>
   last (selectPortfolio_rest pslot j det_out hold_out) = PSetLoading False"
  by (simp add: selectPortfolio_rest_def split: outcome.splits response.splits)

lemma createPortfolio_bracketed:
  "snd (createPortfolio p pslot pdata pcreate pout det_out hold_out) = Returns pr \<Longrightarrow>
     pf_bracketed (fst (createPortfolio p pslot pdata pcreate pout det_out hold_out))"
  using selectPortfolio_rest_last
  by (simp add: createPortfolio_def Let_def pf_bracketed_def pf_sets_loading_def
      split: outcome.splits response.splits)

lemma addTransaction_bracketed:
  assumes cur: "currentPortfolio p = Some cp"
    and ret: "snd (addTransaction p pslot tx_data tx_add det_out hold_out tx_out) = Returns tr"
  shows "pf_bracketed (fst (addTransaction p pslot tx_data tx_add det_out hold_out tx_out))"
proof (cases tx_add)
  case (Rejected e)
  with cur ret show ?thesis by (simp add: addTransaction_def)
next
  case (Resolved r)
  show ?thesis
  proof (cases r)
    case (Failure e)
    with cur Resolved show ?thesis
      by (simp add: addTransaction_def pf_bracketed_def pf_sets_loading_def)
  next
    case (Success d)
    show ?thesis
    proof (cases "snd (fetchTransactions p tx_out)")
      case (Throws e)
      with cur ret Resolved Success show ?thesis by (simp add: addTransaction_def)
    next
      case (Returns u)
      with cur Resolved Success show ?thesis
        by (simp add: addTransaction_def pf_bracketed_def pf_sets_loading_def)
    qed
  qed
qed

text \<open>
  Claim C9, as amended: every operation of the managers that gets past its entry guard
  and returns to its caller performs \<^verbatim>\<open>setLoading(true)\<close> as its first effect and
  \<^verbatim>\<open>setLoading(false)\<close> as its last, whether it succeeded, fell back to the snapshot or
  failed; an effect sequence of that shape ends with \<^verbatim>\<open>loading\<close> false. The collection
  fetches, the selections and the watchlist create, update and delete do so on every
  outcome of their remote calls, and so does \<^verbatim>\<open>addStock\<close> with a watchlist selected.
  (A child operation invoked with nothing selected stops at its guard and does not
  touch \<^verbatim>\<open>loading\<close>.)
\<close>

theorem loading_bracket:
  "wl_bracketed (fetchWatchlists slot out) \<and>
   wl_bracketed (selectWatchlist slot i sel_out) \<and>
   wl_bracketed (fst (createWatchlist s slot wdata create_out out sel_out)) \<and>
   wl_bracketed (fst (updateWatchlist s slot i wdata upd_out out)) \<and>
   wl_bracketed (fst (deleteWatchlist s slot i del_out out)) \<and>
   (currentWatchlist s = Some cw \<longrightarrow>
      wl_bracketed (fst (addStock s slot symbol memo now stamp add_out sel_out))) \<and>
   (currentWatchlist s = Some cw \<and> snd (removeStock s c rm_out) = Returns r \<longrightarrow>
      wl_bracketed (fst (removeStock s c rm_out))) \<and>
   (wl_bracketed evs \<longrightarrow> loading (wl_after evs s slot) = False) \<and>
   pf_bracketed (fetchPortfolios pslot pout) \<and>
   pf_bracketed (selectPortfolio pslot j det_out hold_out) \<and>
   (snd (createPortfolio p pslot pdata pcreate pout det_out hold_out) = Returns pr \<longrightarrow>
      pf_bracketed (fst (createPortfolio p pslot pdata pcreate pout det_out hold_out))) \<and>
   (currentPortfolio p = Some cp \<and>
    snd (addTransaction p pslot tx_data tx_add det_out hold_out tx_out) = Returns tr \<longrightarrow>
      pf_bracketed (fst (addTransaction p pslot tx_data tx_add det_out hold_out tx_out))) \<and>
   (pf_bracketed pevs \<longrightarrow> pf_loading (pf_after pevs p pslot) = False)"
proof (intro conjI impI)
  show "wl_bracketed (fetchWatchlists slot out)"
    by (rule fetchWatchlists_bracketed)
  show "wl_bracketed (selectWatchlist slot i sel_out)"
    by (rule selectWatchlist_bracketed)
  show "wl_bracketed (fst (createWatchlist s slot wdata create_out out sel_out))"
    by (rule createWatchlist_bracketed)
  show "wl_bracketed (fst (updateWatchlist s slot i wdata upd_out out))"
    by (rule updateWatchlist_bracketed)
  show "wl_bracketed (fst (deleteWatchlist s slot i del_out out))"
    by (rule deleteWatchlist_bracketed)
  show "pf_bracketed (fetchPortfolios pslot pout)"
    by (rule fetchPortfolios_bracketed)
  show "pf_bracketed (selectPortfolio pslot j det_out hold_out)"
    by (rule selectPortfolio_bracketed)
next
  assume "currentWatchlist s = Some cw"
  then show "wl_bracketed (fst (addStock s slot symbol memo now stamp add_out sel_out))"
    by (rule addStock_bracketed)
next
  assume "currentWatchlist s = Some cw \<and> snd (removeStock s c rm_out) = Returns r"
  then show "wl_bracketed (fst (removeStock s c rm_out))"
    by (simp add: removeStock_bracketed)
next
  assume "wl_bracketed evs"
  then show "loading (wl_after evs s slot) = False"
    by (simp add: wl_after_def wl_bracketed_loading)
next
  assume "snd (createPortfolio p pslot pdata pcreate pout det_out hold_out) = Returns pr"
  then show "pf_bracketed (fst (createPortfolio p pslot pdata pcreate pout det_out hold_out))"
    by (rule createPortfolio_bracketed)
next
  assume "currentPortfolio p = Some cp \<and>
    snd (addTransaction p pslot tx_data tx_add det_out hold_out tx_out) = Returns tr"
  then show "pf_bracketed (fst (addTransaction p pslot tx_data tx_add det_out hold_out tx_out))"
    by (simp add: addTransaction_bracketed)
next
  assume "pf_bracketed pevs"
  then show "pf_loading (pf_after pevs p pslot) = False"
    by (simp add: pf_after_def pf_bracketed_loading)
qed

theorem loading_bracket_witness:
  "wl_bracketed (fetchWatchlists Absent (Rejected net_down)) \<and>
   loading (wl_after (fetchWatchlists Absent (Rejected net_down))
      (w_selected\<lparr>loading := True\<rparr>) Absent) = False \<and>
   wl_bracketed (fst (createWatchlist (w_selected\<lparr>loading := True\<rparr>) Absent
      \<lparr>new_name = ''Energy'', new_description = []\<rparr> (Resolved (Success w9))
      (Rejected net_down) (Rejected net_down))) \<and>
   currentWatchlist (w_selected\<lparr>loading := True\<rparr>) = Some w9 \<and>
   wl_bracketed (fst (addStock (w_selected\<lparr>loading := True\<rparr>) Absent ''AAPL'' ''test''
      1700000000000 ''2023-11-14T22:13:20.000Z'' (Rejected net_down) (Rejected net_down))) \<and>
   snd (removeStock (w_selected\<lparr>loading := True\<rparr>) ''c1''
      (Resolved (Failure (Some not_found)) :: unit outcome)) = Returns (Failure (Some not_found)) \<and>
   wl_bracketed (fst (removeStock (w_selected\<lparr>loading := True\<rparr>) ''c1''
      (Resolved (Failure (Some not_found)) :: unit outcome))) \<and>
   pf_bracketed (selectPortfolio Absent ''p1'' (Resolved (Success (Some p1)))
      (Rejected net_down)) \<and>
   pf_loading (pf_after (selectPortfolio Absent ''p1'' (Resolved (Success (Some p1)))
      (Rejected net_down)) p_selected Absent) = False \<and>
   currentPortfolio p_selected = Some p1 \<and>
   snd (addTransaction p_selected Absent buy_aapl (Resolved (Failure (Some server_error)))
      (Resolved (Success (Some p1))) (Rejected net_down) (Rejected net_down)) =
     Returns (Failure (Some server_error)) \<and>
   pf_bracketed (fst (addTransaction p_selected Absent buy_aapl
      (Resolved (Failure (Some server_error)))
      (Resolved (Success (Some p1))) (Rejected net_down) (Rejected net_down))) \<and>
   snd (createPortfolio p_selected Absent \<lparr>npf_name = ''Income'', npf_description = []\<rparr>
      (Resolved (Failure (Some server_error))) (Rejected net_down)
      (Resolved (Success (Some p1))) (Rejected net_down)) =
     Returns (Failure (Some server_error)) \<and>
   pf_bracketed (fst (createPortfolio p_selected Absent
      \<lparr>npf_name = ''Income'', npf_description = []\<rparr>
      (Resolved (Failure (Some server_error))) (Rejected net_down)
      (Resolved (Success (Some p1))) (Rejected net_down)))"
proof -
  have vals:
    "currentWatchlist (w_selected\<lparr>loading := True\<rparr>) = Some w9"
    "snd (removeStock (w_selected\<lparr>loading := True\<rparr>) ''c1''
      (Resolved (Failure (Some not_found)) :: unit outcome)) = Returns (Failure (Some not_found))"
    "currentPortfolio p_selected = Some p1"
    "snd (addTransaction p_selected Absent buy_aapl (Resolved (Failure (Some server_error)))
      (Resolved (Success (Some p1))) (Rejected net_down) (Rejected net_down)) =
     Returns (Failure (Some server_error))"
    "snd (createPortfolio p_selected Absent \<lparr>npf_name = ''Income'', npf_description = []\<rparr>
      (Resolved (Failure (Some server_error))) (Rejected net_down)
      (Resolved (Success (Some p1))) (Rejected net_down)) =
     Returns (Failure (Some server_error))"
    by (simp_all add: w_selected_def p_selected_def initial_wstate_def initial_pstate_def
          removeStock_def addTransaction_def createPortfolio_def)
  note bracket = loading_bracket [where slot = Absent and out = "Rejected net_down"
      and i = "''w9''" and sel_out = "Rejected net_down"
      and s = "w_selected\<lparr>loading := True\<rparr>"
      and wdata = "\<lparr>new_name = ''Energy'', new_description = []\<rparr>"
      and create_out = "Resolved (Success w9)" and upd_out = "Resolved (Success w9)"
      and del_out = "Resolved (Success ())" and cw = w9
      and symbol = "''AAPL''" and memo = "''test''" and now = 1700000000000
      and stamp = "''2023-11-14T22:13:20.000Z''" and add_out = "Rejected net_down"
      and c = "''c1''" and rm_out = "Resolved (Failure (Some not_found)) :: unit outcome"
      and r = "Failure (Some not_found)"
      and evs = "fetchWatchlists Absent (Rejected net_down)"
      and pslot = Absent and pout = "Rejected net_down" and j = "''p1''"
      and det_out = "Resolved (Success (Some p1))" and hold_out = "Rejected net_down"
      and p = p_selected and pdata = "\<lparr>npf_name = ''Income'', npf_description = []\<rparr>"
      and pcreate = "Resolved (Failure (Some server_error))"
      and pr = "Failure (Some server_error)" and cp = p1
      and tx_data = buy_aapl and tx_add = "Resolved (Failure (Some server_error))"
      and tx_out = "Rejected net_down" and tr = "Failure (Some server_error)"
      and pevs = "selectPortfolio Absent ''p1'' (Resolved (Success (Some p1)))
         (Rejected net_down)"]
  show ?thesis
    using vals bracket by auto
qed

text \<open>Claim C9 as stated fails: \<^verbatim>\<open>addStock\<close> invoked with nothing selected returns at
  its guard; it does not set \<^verbatim>\<open>loading\<close> to true on entry, and a \<^verbatim>\<open>loading\<close> that was true
  is still true on exit.\<close>

theorem guarded_operation_skips_loading_counterexample:
  "currentWatchlist (w_loaded\<lparr>loading := True\<rparr>) = None \<and>
   \<not> wl_bracketed (fst (addStock (w_loaded\<lparr>loading := True\<rparr>) Absent ''AAPL'' ''test''
        1700000000000 ''2023-11-14T22:13:20.000Z'' (Resolved (Success c1))
        (Rejected net_down))) \<and>
   loading (wl_after (fst (addStock (w_loaded\<lparr>loading := True\<rparr>) Absent ''AAPL'' ''test''
        1700000000000 ''2023-11-14T22:13:20.000Z'' (Resolved (Success c1))
        (Rejected net_down))) (w_loaded\<lparr>loading := True\<rparr>) Absent) = True"
  by (simp add: w_loaded_def initial_wstate_def addStock_def wl_bracketed_def wl_after_def
        run_simps)

end
